theory Spec2Isabelle
  imports Complex_Main "HOL-Library.AList"
begin

section \<open>JavaScript values\<close>

text \<open>
  Both programs exchange JSON. A value that came out of \<^verbatim>\<open>JSON.parse\<close> or
  \<^verbatim>\<open>response.json()\<close> is one of the six JSON shapes; a number is a rational (every
  finite double is one). \<^verbatim>\<open>undefined\<close> is not a JSON value: a property read that finds
  nothing is \<open>None\<close>. An object is the list of its properties in insertion order,
  each name once.
\<close>

datatype json =
    JNull
  | JBool bool
  | JNum rat
  | JStr string
  | JArr "json list"
  | JObj "(string \<times> json) list"

text \<open>A thrown value: every \<^verbatim>\<open>throw\<close> of the two files throws an \<^verbatim>\<open>Error\<close> object,
  read through its \<^verbatim>\<open>name\<close> and \<^verbatim>\<open>message\<close>.\<close>

datatype js_error = JsError (err_name: string) (err_message: string)

text \<open>JavaScript's truthiness (\<^verbatim>\<open>if (x)\<close>, \<^verbatim>\<open>!x\<close>, \<^verbatim>\<open>a && b\<close>, \<^verbatim>\<open>a || b\<close>) on a
  JSON value, on a possibly undefined one, and on a possibly undefined string.\<close>

fun truthy_value :: "json \<Rightarrow> bool" where
  "truthy_value JNull = False"
| "truthy_value (JBool b) = b"
| "truthy_value (JNum n) = (n \<noteq> 0)"
| "truthy_value (JStr s) = (s \<noteq> [])"
| "truthy_value (JArr xs) = True"
| "truthy_value (JObj kvs) = True"

definition truthy :: "json option \<Rightarrow> bool" where
  "truthy v = (case v of None \<Rightarrow> False | Some x \<Rightarrow> truthy_value x)"

definition truthy_string :: "string option \<Rightarrow> bool" where
  "truthy_string v = (case v of None \<Rightarrow> False | Some s \<Rightarrow> s \<noteq> [])"

text \<open>
  A property read \<^verbatim>\<open>v.k\<close>. On \<^verbatim>\<open>null\<close> it throws a \<^verbatim>\<open>TypeError\<close> (the message is
  the engine's; Node's wording is used). On an object it is the own property; an array
  and a string have \<^verbatim>\<open>length\<close>; every other read of the names the two files use
  (\<^verbatim>\<open>success\<close>, \<^verbatim>\<open>products\<close>, \<^verbatim>\<open>product\<close>, \<^verbatim>\<open>error\<close>, \<^verbatim>\<open>id\<close> and the 26 names of a
  product's fields) is undefined.
\<close>

definition property :: "json \<Rightarrow> string \<Rightarrow> json option" where
  "property v k =
     (case v of
        JObj kvs \<Rightarrow> map_of kvs k
      | JArr xs \<Rightarrow> if k = ''length'' then Some (JNum (of_nat (length xs))) else None
      | JStr s \<Rightarrow> if k = ''length'' then Some (JNum (of_nat (length s))) else None
      | _ \<Rightarrow> None)"

definition null_read :: "string \<Rightarrow> js_error" where
  "null_read k =
     JsError ''TypeError'' (''Cannot read properties of null (reading '' @ [CHR 0x27] @ k @ [CHR 0x27] @ '')'')"

definition js_get :: "json \<Rightarrow> string \<Rightarrow> js_error + json option" where
  "js_get v k = (if v = JNull then Inl (null_read k) else Inr (property v k))"

text \<open>\<^verbatim>\<open>String.prototype.includes\<close>: the needle occurs somewhere in the string.\<close>

fun str_includes :: "string \<Rightarrow> string \<Rightarrow> bool" where
  "str_includes [] t = (t = [])"
| "str_includes (c # s) t = (take (length t) (c # s) = t \<or> str_includes s t)"

text \<open>The decimal digits of a number in a template literal (\<^verbatim>\<open>${response.status}\<close>).\<close>

fun decimal :: "nat \<Rightarrow> string" where
  "decimal n =
     (if n < 10 then [''0123456789'' ! n]
      else decimal (n div 10) @ [''0123456789'' ! (n mod 10)])"

declare decimal.simps [simp del]

section \<open>Endpoint Resolver (productApi.js, getApiBaseUrl)\<close>

text \<open>
  The file \<^verbatim>\<open>src/src/api/productApi.js\<close> holds two versions of the client module one
  after the other. The first (lines 1-289) is the one with the resolver and the
  local-only mode; it is the one modelled here, and line numbers refer to it.
\<close>

text \<open>
  The regular expression \<^verbatim>\<open>/^\d+\.\d+\.\d+\.\d+$/\<close> of line 22, as the scanner it
  denotes: \<^verbatim>\<open>\d+\<close> takes a non-empty run of ASCII digits (the run is maximal: the
  next item of the expression is a dot or the end, which no digit matches), \<^verbatim>\<open>\.\<close>
  takes one dot, and \<^verbatim>\<open>$\<close> asks for the end of the host name.
\<close>

definition digit :: "char \<Rightarrow> bool" where
  "digit c = (c \<in> set ''0123456789'')"

definition digits1 :: "string \<Rightarrow> string option" where
  "digits1 s = (if takeWhile digit s = [] then None else Some (dropWhile digit s))"

definition dot :: "string \<Rightarrow> string option" where
  "dot s = (case s of [] \<Rightarrow> None | c # r \<Rightarrow> if c = CHR ''.'' then Some r else None)"

definition matches_ipv4 :: "string \<Rightarrow> bool" where
  "matches_ipv4 s =
     (Option.bind (Option.bind (Option.bind (Option.bind (Option.bind (Option.bind
        (digits1 s) dot) digits1) dot) digits1) dot) digits1 = Some [])"

text \<open>
  \<^verbatim>\<open>getApiBaseUrl\<close> reads \<^verbatim>\<open>process.env.REACT_APP_PRODUCTS_API_URL\<close> and
  \<^verbatim>\<open>window.location.hostname\<close>; both are arguments here. \<open>None\<close> is the \<^verbatim>\<open>null\<close> of
  line 29 (local-only mode).
\<close>

definition getApiBaseUrl :: "string option \<Rightarrow> string \<Rightarrow> string option" where
  "getApiBaseUrl REACT_APP_PRODUCTS_API_URL hostname =
     (if truthy_string REACT_APP_PRODUCTS_API_URL then REACT_APP_PRODUCTS_API_URL
      else
        let isDeployedEnvironment =
              \<not> str_includes hostname ''localhost'' \<and>
              \<not> str_includes hostname ''127.0.0.1'' \<and>
              \<not> matches_ipv4 hostname
        in if isDeployedEnvironment then None
           else if hostname \<noteq> ''localhost'' \<and> hostname \<noteq> ''127.0.0.1''
             then Some (''http://'' @ hostname @ '':5004/api'')
           else Some ''http://localhost:5004/api'')"

section \<open>Remote Request Executor (productApi.js, apiRequest)\<close>

text \<open>
  What \<^verbatim>\<open>fetch(url, config)\<close> is called with, and what it gives back. The body of a
  request is the value \<^verbatim>\<open>JSON.stringify\<close> was applied to. \<^verbatim>\<open>fetch\<close> either rejects
  (no HTTP response: the network-level failure) or resolves to a response, whose
  \<^verbatim>\<open>json()\<close> either parses the body or rejects with a \<^verbatim>\<open>SyntaxError\<close>.
\<close>

record fetch_request =
  url :: string
  fetch_method :: "string option"
  fetch_headers :: "(string \<times> string) list"
  fetch_body :: "json option"

datatype body_json = NotJson | Json json

record http_response =
  status :: nat
  statusText :: string
  body :: body_json

datatype fetch_result = Rejects js_error | Resolves http_response

text \<open>\<^verbatim>\<open>response.ok\<close>: the status is in the range 200-299.\<close>

definition ok :: "http_response \<Rightarrow> bool" where
  "ok response = (200 \<le> status response \<and> status response \<le> 299)"

text \<open>
  Everything the client module reads from outside itself:
  \<^item> \<open>API_BASE_URL\<close>, the module constant of line 42 (the resolver's result);
  \<^item> \<open>fetch\<close>, the remote side: it answers a request in a remote state \<open>'r\<close> and
    leaves a new one;
  \<^item> \<open>sampleProducts\<close>, the array imported from \<^verbatim>\<open>../utils/addSampleProducts\<close> (that
    file is not part of the sources), a list of objects;
  \<^item> \<open>ToString\<close> and \<open>parseInt\<close>, the two built-ins the module applies to values that
    need not be strings: \<open>ToString\<close> is JavaScript's conversion of a non-string value to
    a string (template literals, \<^verbatim>\<open>new Error(v)\<close>), \<open>parseInt\<close> is the global
    function, with \<open>None\<close> for \<^verbatim>\<open>NaN\<close>.
\<close>

record 'r env =
  API_BASE_URL :: "string option"
  fetch :: "fetch_request \<Rightarrow> 'r \<Rightarrow> fetch_result \<times> 'r"
  sampleProducts :: "(string \<times> json) list list"
  ToString :: "json \<Rightarrow> string"
  parseInt :: "json \<Rightarrow> rat option"

text \<open>
  The slot \<^verbatim>\<open>eyewear_products_backup\<close> of \<^verbatim>\<open>localStorage\<close>, by what the module can
  observe of the stored text: there is none (\<^verbatim>\<open>getItem\<close> returns \<^verbatim>\<open>null\<close>), it is the
  empty string, \<^verbatim>\<open>JSON.parse\<close> rejects it, or it is the JSON text of a value.
\<close>

datatype slot = Absent | EmptyText | Malformed | Holds json

text \<open>The state the client module works on: the remote side and the browser's storage.
  \<^verbatim>\<open>getItem\<close> throws where the page may not use the storage, \<^verbatim>\<open>setItem\<close> where the
  quota is exceeded.\<close>

record 'r world =
  remote :: 'r
  backup :: slot
  getItem_throws :: bool
  setItem_throws :: bool

record api_options =
  opt_method :: "string option"
  opt_body :: "json option"

definition no_options :: api_options where
  "no_options = \<lparr>opt_method = None, opt_body = None\<rparr>"

text \<open>A value inside a template literal or as the argument of \<^verbatim>\<open>new Error\<close>.\<close>

definition js_String :: "'r env \<Rightarrow> json \<Rightarrow> string" where
  "js_String env v = (case v of JStr s \<Rightarrow> s | _ \<Rightarrow> ToString env v)"

text \<open>
  Lines 81-94. \<^verbatim>\<open>data.success && data.products\<close> is the value under the key when
  both it and \<^verbatim>\<open>data.success\<close> are truthy. Reading \<^verbatim>\<open>data.success\<close> throws when the
  body is the JSON text \<^verbatim>\<open>null\<close>; the two branches that follow return \<^verbatim>\<open>data\<close> alike.
\<close>

definition unwrap :: "json \<Rightarrow> string \<Rightarrow> json option" where
  "unwrap data key =
     (if truthy (property data ''success'') \<and> truthy (property data key)
      then property data key else None)"

definition isArray :: "json \<Rightarrow> bool" where
  "isArray v = (case v of JArr xs \<Rightarrow> True | _ \<Rightarrow> False)"

definition normalize :: "json \<Rightarrow> js_error + json" where
  "normalize data =
     (case js_get data ''success'' of
        Inl error \<Rightarrow> Inl error
      | Inr success \<Rightarrow>
          (case unwrap data ''products'' of
             Some products \<Rightarrow> Inr products
           | None \<Rightarrow>
               (case unwrap data ''product'' of
                  Some product \<Rightarrow> Inr product
                | None \<Rightarrow> if isArray data then Inr data else Inr data)))"

text \<open>Lines 70-94: what \<^verbatim>\<open>apiRequest\<close> makes of a response.\<close>

definition from_response :: "'r env \<Rightarrow> http_response \<Rightarrow> js_error + json" where
  "from_response env response =
     (if \<not> ok response then
        (let errorData = (case body response of NotJson \<Rightarrow> JObj [] | Json d \<Rightarrow> d) in
         case js_get errorData ''error'' of
           Inl error \<Rightarrow> Inl error
         | Inr e \<Rightarrow>
             Inl (JsError ''Error''
               (case e of
                  Some errorMessage \<Rightarrow>
                    if truthy_value errorMessage then js_String env errorMessage
                    else ''HTTP '' @ decimal (status response) @ '': '' @ statusText response
                | None \<Rightarrow> ''HTTP '' @ decimal (status response) @ '': '' @ statusText response)))
      else
        (case body response of
           NotJson \<Rightarrow> Inl (JsError ''SyntaxError'' ''Unexpected token in JSON'')
         | Json data \<Rightarrow> normalize data))"

text \<open>
  \<^verbatim>\<open>apiRequest\<close>. Its \<^verbatim>\<open>catch\<close> block logs and rethrows the same error, so a failure
  of any step is the function's failure.
\<close>

definition apiRequest ::
  "'r env \<Rightarrow> string \<Rightarrow> api_options \<Rightarrow> 'r world \<Rightarrow> (js_error + json) \<times> 'r world" where
  "apiRequest env endpoint options w =
     (if \<not> truthy_string (API_BASE_URL env) then
        (Inl (JsError ''Error'' ''No API URL configured - using localStorage''), w)
      else
        (case API_BASE_URL env of
           None \<Rightarrow> (Inl (JsError ''Error'' ''No API URL configured - using localStorage''), w)
         | Some base \<Rightarrow>
             (case fetch env
                     \<lparr>url = base @ endpoint,
                      fetch_method = opt_method options,
                      fetch_headers = [(''Content-Type'', ''application/json'')],
                      fetch_body = opt_body options\<rparr>
                     (remote w) of
                (Rejects error, r) \<Rightarrow> (Inl error, w\<lparr>remote := r\<rparr>)
              | (Resolves response, r) \<Rightarrow> (from_response env response, w\<lparr>remote := r\<rparr>))))"

section \<open>Local Backup Store (productApi.js, getStoredProducts and saveProductsBackup)\<close>

text \<open>\<^verbatim>\<open>sampleProducts.map((product, index) => ({...product, id: index + 1}))\<close>: the
  spread copies the product's properties in order, and \<^verbatim>\<open>id\<close> replaces the value of
  an \<^verbatim>\<open>id\<close> property in its place or is added last.\<close>

definition with_id :: "nat \<times> (string \<times> json) list \<Rightarrow> json" where
  "with_id = (\<lambda>(index, product). JObj (AList.update ''id'' (JNum (of_nat (index + 1))) product))"

definition seeded :: "(string \<times> json) list list \<Rightarrow> json" where
  "seeded sample = JArr (map with_id (enumerate 0 sample))"

text \<open>The \<^verbatim>\<open>try\<close> block of lines 115-123, with what it throws.\<close>

definition read_backup :: "'r env \<Rightarrow> 'r world \<Rightarrow> js_error + json" where
  "read_backup env w =
     (if getItem_throws w then Inl (JsError ''SecurityError'' ''The operation is insecure.'')
      else
        (case backup w of
           Absent \<Rightarrow> Inr (seeded (sampleProducts env))
         | EmptyText \<Rightarrow> Inr (seeded (sampleProducts env))
         | Malformed \<Rightarrow> Inl (JsError ''SyntaxError'' ''Unexpected token in JSON'')
         | Holds stored \<Rightarrow> Inr stored))"

definition getStoredProducts :: "'r env \<Rightarrow> 'r world \<Rightarrow> json" where
  "getStoredProducts env w =
     (case read_backup env w of
        Inr products \<Rightarrow> products
      | Inl error \<Rightarrow> seeded (sampleProducts env))"

definition saveProductsBackup :: "json \<Rightarrow> 'r world \<Rightarrow> 'r world" where
  "saveProductsBackup products w =
     (if setItem_throws w then w else w\<lparr>backup := Holds products\<rparr>)"

section \<open>Catalog Client (productApi.js, productApi)\<close>

text \<open>
  The log lines of \<^verbatim>\<open>getAllProducts\<close> read \<^verbatim>\<open>products.length\<close>; the read is kept,
  since on \<^verbatim>\<open>null\<close> it throws. \<open>from_backup\<close> is lines 172-174 and again lines 190-192.
\<close>

definition from_backup :: "'r env \<Rightarrow> 'r world \<Rightarrow> (js_error + json) \<times> 'r world" where
  "from_backup env w =
     (let products = getStoredProducts env w in
      case js_get products ''length'' of
        Inl error \<Rightarrow> (Inl error, w)
      | Inr n \<Rightarrow> (Inr products, w))"

definition getAllProducts :: "'r env \<Rightarrow> 'r world \<Rightarrow> (js_error + json) \<times> 'r world" where
  "getAllProducts env w =
     (if \<not> truthy_string (API_BASE_URL env) then from_backup env w
      else
        (case apiRequest env ''/products'' no_options w of
           (Inr products, w1) \<Rightarrow>
             (case js_get products ''length'' of
                Inr n \<Rightarrow> (Inr products, saveProductsBackup products w1)
              | Inl error \<Rightarrow> from_backup env w1)
         | (Inl error, w1) \<Rightarrow> from_backup env w1))"

text \<open>\<^verbatim>\<open>p.id === parseInt(id)\<close>: strict equality with a number holds for an equal
  number only, and never for \<^verbatim>\<open>NaN\<close>.\<close>

definition strict_equals :: "json option \<Rightarrow> rat option \<Rightarrow> bool" where
  "strict_equals v n =
     (case (v, n) of (Some (JNum a), Some b) \<Rightarrow> a = b | _ \<Rightarrow> False)"

text \<open>\<^verbatim>\<open>products.find(p => p.id === parseInt(id))\<close> on an array: the first element
  the test accepts; the test throws on a \<^verbatim>\<open>null\<close> element.\<close>

fun find_by_id :: "rat option \<Rightarrow> json list \<Rightarrow> js_error + json option" where
  "find_by_id n [] = Inr None"
| "find_by_id n (p # ps) =
     (case js_get p ''id'' of
        Inl error \<Rightarrow> Inl error
      | Inr v \<Rightarrow> if strict_equals v n then Inr (Some p) else find_by_id n ps)"

definition not_found :: "'r env \<Rightarrow> json \<Rightarrow> js_error" where
  "not_found env ident = JsError ''Error'' (''Product with ID '' @ js_String env ident @ '' not found'')"

definition getProductById ::
  "'r env \<Rightarrow> json \<Rightarrow> 'r world \<Rightarrow> (js_error + json) \<times> 'r world" where
  "getProductById env ident w =
     (case apiRequest env (''/products/'' @ js_String env ident) no_options w of
        (Inr product, w1) \<Rightarrow> (Inr product, w1)
      | (Inl error, w1) \<Rightarrow>
          (case getStoredProducts env w1 of
             JArr products \<Rightarrow>
               (case find_by_id (parseInt env ident) products of
                  Inl thrown \<Rightarrow> (Inl thrown, w1)
                | Inr None \<Rightarrow> (Inl (not_found env ident), w1)
                | Inr (Some product) \<Rightarrow>
                    if truthy_value product then (Inr product, w1)
                    else (Inl (not_found env ident), w1))
           | JNull \<Rightarrow> (Inl (null_read ''find''), w1)
           | _ \<Rightarrow> (Inl (JsError ''TypeError'' ''products.find is not a function''), w1)))"

text \<open>The inner \<^verbatim>\<open>try\<close> of the three mutations (lines 222-227, 245-250, 267-272):
  re-read everything and save it; a failure is logged.\<close>

definition refresh_backup :: "'r env \<Rightarrow> 'r world \<Rightarrow> 'r world" where
  "refresh_backup env w =
     (case getAllProducts env w of
        (Inr products, w1) \<Rightarrow> saveProductsBackup products w1
      | (Inl backupError, w1) \<Rightarrow> w1)"

definition createProduct ::
  "'r env \<Rightarrow> json \<Rightarrow> 'r world \<Rightarrow> (js_error + json) \<times> 'r world" where
  "createProduct env productData w =
     (case apiRequest env ''/products''
             \<lparr>opt_method = Some ''POST'', opt_body = Some productData\<rparr> w of
        (Inr newProduct, w1) \<Rightarrow> (Inr newProduct, refresh_backup env w1)
      | (Inl error, w1) \<Rightarrow>
          (Inl (JsError ''Error'' (''Failed to create product: '' @ err_message error)), w1))"

definition updateProduct ::
  "'r env \<Rightarrow> json \<Rightarrow> json \<Rightarrow> 'r world \<Rightarrow> (js_error + json) \<times> 'r world" where
  "updateProduct env ident productData w =
     (case apiRequest env (''/products/'' @ js_String env ident)
             \<lparr>opt_method = Some ''PUT'', opt_body = Some productData\<rparr> w of
        (Inr updatedProduct, w1) \<Rightarrow> (Inr updatedProduct, refresh_backup env w1)
      | (Inl error, w1) \<Rightarrow>
          (Inl (JsError ''Error'' (''Failed to update product: '' @ err_message error)), w1))"

definition deleteProduct ::
  "'r env \<Rightarrow> json \<Rightarrow> 'r world \<Rightarrow> (js_error + json) \<times> 'r world" where
  "deleteProduct env ident w =
     (case apiRequest env (''/products/'' @ js_String env ident)
             \<lparr>opt_method = Some ''DELETE'', opt_body = None\<rparr> w of
        (Inr result, w1) \<Rightarrow> (Inr result, refresh_backup env w1)
      | (Inl error, w1) \<Rightarrow>
          (Inl (JsError ''Error'' (''Failed to delete product: '' @ err_message error)), w1))"

section \<open>The relational store behind the handler (api/products.js)\<close>

text \<open>
  The handler reaches the store only through the tagged template \<^verbatim>\<open>sql\<close> of the Neon
  driver: each use sends one parameterized statement and gives back its rows or throws.
  A statement is modelled by what the handler fixes of it: its kind and what is bound to
  its parameters (\<open>None\<close> is an \<^verbatim>\<open>undefined\<close> parameter). A row is a JavaScript object.
\<close>

type_synonym row = "(string \<times> json) list"

datatype expr = Bind "json option" | Now

datatype stmt =
    CreateTableIfNotExists string "(string \<times> string) list"
  | AddColumnIfNotExists string string string
  | SelectById "json option"
  | SelectSearch "json option" "json option" "json option"
  | SelectCategory "json option"
  | SelectAll
  | InsertProduct "(string \<times> json option) list"
  | UpdateProduct "(string \<times> expr) list" "json option"
  | DeleteById "json option"

text \<open>
  The store is a parameter: any function that answers a statement in a store state
  \<open>'db\<close> with rows or an error and leaves a new state. The connection also records, in
  order, every statement that was handed to the store and how it ended.
\<close>

type_synonym 'db sql = "stmt \<Rightarrow> 'db \<Rightarrow> (js_error + row list) \<times> 'db"

record 'db conn =
  store :: 'db
  trace :: "(stmt \<times> (js_error + row list)) list"

definition exec :: "'db sql \<Rightarrow> stmt \<Rightarrow> 'db conn \<Rightarrow> (js_error + row list) \<times> 'db conn" where
  "exec sql st c =
     (case sql st (store c) of
        (result, db) \<Rightarrow> (result, \<lparr>store = db, trace = trace c @ [(st, result)]\<rparr>))"

definition quoted :: "string \<Rightarrow> string" where
  "quoted s = [CHR 0x27] @ s @ [CHR 0x27]"

text \<open>Lines 56-88: the columns of \<^verbatim>\<open>CREATE TABLE IF NOT EXISTS products\<close>.\<close>

definition products_columns :: "(string \<times> string) list" where
  "products_columns =
     [(''id'', ''SERIAL PRIMARY KEY''),
      (''name'', ''VARCHAR(255) NOT NULL''),
      (''price'', ''DECIMAL(10,2) NOT NULL''),
      (''original_price'', ''DECIMAL(10,2)''),
      (''category'', ''VARCHAR(100)''),
      (''brand'', ''VARCHAR(100)''),
      (''material'', ''VARCHAR(100)''),
      (''shape'', ''VARCHAR(100)''),
      (''color'', ''VARCHAR(100)''),
      (''size'', ''VARCHAR(50)''),
      (''image'', ''TEXT''),
      (''gallery'', ''TEXT''),
      (''description'', ''TEXT''),
      (''features'', ''TEXT''),
      (''specifications'', ''TEXT''),
      (''status'', ''VARCHAR(50) DEFAULT '' @ quoted ''active''),
      (''created_at'', ''TIMESTAMP DEFAULT NOW()''),
      (''updated_at'', ''TIMESTAMP DEFAULT NOW()''),
      (''framecolor'', ''VARCHAR(100)''),
      (''style'', ''VARCHAR(100)''),
      (''rim'', ''VARCHAR(100)''),
      (''gender'', ''VARCHAR(50)''),
      (''type'', ''VARCHAR(100)''),
      (''featured'', ''BOOLEAN DEFAULT false''),
      (''bestseller'', ''BOOLEAN DEFAULT false''),
      (''sizes'', ''TEXT''),
      (''lenstypes'', ''TEXT''),
      (''discount'', ''DECIMAL(5,2)''),
      (''colorimages'', ''TEXT'')]"

definition create_products :: stmt where
  "create_products = CreateTableIfNotExists ''products'' products_columns"

text \<open>Lines 108-114.\<close>

definition create_comments :: stmt where
  "create_comments =
     CreateTableIfNotExists ''comments''
       [(''id'', ''SERIAL PRIMARY KEY''),
        (''comment'', ''TEXT''),
        (''created_at'', ''TIMESTAMP DEFAULT NOW()'')]"

text \<open>Lines 92-102: the eleven \<^verbatim>\<open>ALTER TABLE products ADD COLUMN IF NOT EXISTS\<close>
  statements, in the order of the source.\<close>

definition alter_statements :: "stmt list" where
  "alter_statements =
     [AddColumnIfNotExists ''products'' ''framecolor'' ''VARCHAR(100)'',
      AddColumnIfNotExists ''products'' ''style'' ''VARCHAR(100)'',
      AddColumnIfNotExists ''products'' ''rim'' ''VARCHAR(100)'',
      AddColumnIfNotExists ''products'' ''gender'' ''VARCHAR(50)'',
      AddColumnIfNotExists ''products'' ''type'' ''VARCHAR(100)'',
      AddColumnIfNotExists ''products'' ''featured'' ''BOOLEAN DEFAULT false'',
      AddColumnIfNotExists ''products'' ''bestseller'' ''BOOLEAN DEFAULT false'',
      AddColumnIfNotExists ''products'' ''sizes'' ''TEXT'',
      AddColumnIfNotExists ''products'' ''lenstypes'' ''TEXT'',
      AddColumnIfNotExists ''products'' ''discount'' ''DECIMAL(5,2)'',
      AddColumnIfNotExists ''products'' ''colorimages'' ''TEXT'']"

text \<open>
  Lines 91-105: the statements are awaited one after the other inside one \<^verbatim>\<open>try\<close>
  block. A statement that throws leaves the block for its \<^verbatim>\<open>catch\<close>, which logs the
  error; execution goes on after the block.
\<close>

fun add_columns :: "'db sql \<Rightarrow> stmt list \<Rightarrow> 'db conn \<Rightarrow> 'db conn" where
  "add_columns sql [] c = c"
| "add_columns sql (st # sts) c =
     (case exec sql st c of
        (Inl alterError, c1) \<Rightarrow> c1
      | (Inr rows, c1) \<Rightarrow> add_columns sql sts c1)"

section \<open>Remote CRUD Handler (api/products.js)\<close>

text \<open>
  The request as the handler reads it: \<^verbatim>\<open>req.method\<close>, \<^verbatim>\<open>req.query\<close> (each value a
  string) and \<^verbatim>\<open>req.body\<close> (the parsed JSON body, \<open>None\<close> when there is none). The
  response is what \<^verbatim>\<open>res.setHeader\<close>, \<^verbatim>\<open>res.status\<close> and \<^verbatim>\<open>res.json\<close> have made of it.
\<close>

record request =
  req_method :: string
  req_query :: "(string \<times> string) list"
  req_body :: "json option"

record response =
  res_status :: nat
  res_headers :: "(string \<times> string) list"
  res_body :: json

definition fresh_response :: response where
  "fresh_response = \<lparr>res_status = 200, res_headers = [], res_body = JNull\<rparr>"

definition corsHeaders :: "(string \<times> string) list" where
  "corsHeaders =
     [(''Access-Control-Allow-Origin'', ''*''),
      (''Access-Control-Allow-Methods'', ''GET, POST, PUT, DELETE, OPTIONS''),
      (''Access-Control-Allow-Headers'', ''Content-Type, Authorization, X-Requested-With''),
      (''Access-Control-Allow-Credentials'', ''false'')]"

definition setHeader :: "string \<times> string \<Rightarrow> response \<Rightarrow> response" where
  "setHeader kv res = res\<lparr>res_headers := AList.update (fst kv) (snd kv) (res_headers res)\<rparr>"

definition send :: "nat \<Rightarrow> json \<Rightarrow> response \<Rightarrow> response" where
  "send code content res = res\<lparr>res_status := code, res_body := content\<rparr>"

text \<open>A query parameter read by destructuring \<^verbatim>\<open>req.query\<close>, and the same value as
  a statement parameter.\<close>

definition param :: "request \<Rightarrow> string \<Rightarrow> string option" where
  "param req k = map_of (req_query req) k"

definition bound :: "string option \<Rightarrow> json option" where
  "bound v = map_option JStr v"

text \<open>\<^verbatim>\<open>result[0].name\<close> in a log line: \<^verbatim>\<open>result[0]\<close> is undefined for no rows, and
  reading a property of it throws.\<close>

definition first_row :: "row list \<Rightarrow> js_error + row" where
  "first_row result =
     (case result of
        [] \<Rightarrow> Inl (JsError ''TypeError''
                (''Cannot read properties of undefined (reading '' @ quoted ''name'' @ '')''))
      | r # rs \<Rightarrow> Inr r)"

text \<open>\<^verbatim>\<open>if (id)\<close>, \<^verbatim>\<open>if (search)\<close>, \<^verbatim>\<open>if (category)\<close>: a parameter that is there
  and is not the empty string.\<close>

definition given_param :: "request \<Rightarrow> string \<Rightarrow> string option" where
  "given_param req k = (if truthy_string (param req k) then param req k else None)"

text \<open>Lines 116-176 of \<^verbatim>\<open>handleGet\<close>: the read that the query asks for.\<close>

definition listing :: "row list \<Rightarrow> string \<times> json \<Rightarrow> json" where
  "listing result extra =
     JObj [(''success'', JBool True), (''data'', JArr (map JObj result)),
           (''count'', JNum (of_nat (length result))), extra]"

definition read_products ::
  "'db sql \<Rightarrow> request \<Rightarrow> response \<Rightarrow> 'db conn \<Rightarrow> (js_error + response) \<times> 'db conn" where
  "read_products sql req res c =
     (case given_param req ''id'' of
        Some ident \<Rightarrow>
          (case exec sql (SelectById (Some (JStr ident))) c of
             (Inl error, c1) \<Rightarrow> (Inl error, c1)
           | (Inr [], c1) \<Rightarrow>
               (Inr (send 404
                  (JObj [(''success'', JBool False), (''error'', JStr ''Product not found'')]) res), c1)
           | (Inr (r # rs), c1) \<Rightarrow>
               (Inr (send (res_status res)
                  (JObj [(''success'', JBool True), (''data'', JObj r)]) res), c1))
      | None \<Rightarrow>
          (case given_param req ''search'' of
             Some search \<Rightarrow>
               (let pattern = Some (JStr (''%'' @ search @ ''%'')) in
                case exec sql (SelectSearch pattern pattern pattern) c of
                  (Inl error, c1) \<Rightarrow> (Inl error, c1)
                | (Inr result, c1) \<Rightarrow>
                    (Inr (send (res_status res) (listing result (''query'', JStr search)) res), c1))
           | None \<Rightarrow>
               (case given_param req ''category'' of
                  Some category \<Rightarrow>
                    (case exec sql (SelectCategory (Some (JStr (''%'' @ category @ ''%'')))) c of
                       (Inl error, c1) \<Rightarrow> (Inl error, c1)
                     | (Inr result, c1) \<Rightarrow>
                         (Inr (send (res_status res)
                            (listing result (''category'', JStr category)) res), c1))
                | None \<Rightarrow>
                    (case exec sql SelectAll c of
                       (Inl error, c1) \<Rightarrow> (Inl error, c1)
                     | (Inr result, c1) \<Rightarrow>
                         (Inr (send (res_status res)
                            (listing result (''source'', JStr ''neon'')) res), c1)))))"

text \<open>\<^verbatim>\<open>handleGet\<close>: lines 56-114 ensure the schema, then the read. Every error but
  the add-column ones is rethrown by the \<^verbatim>\<open>catch\<close> of line 178.\<close>

definition handleGet ::
  "'db sql \<Rightarrow> request \<Rightarrow> response \<Rightarrow> 'db conn \<Rightarrow> (js_error + response) \<times> 'db conn" where
  "handleGet sql req res c =
     (case exec sql create_products c of
        (Inl error, c1) \<Rightarrow> (Inl error, c1)
      | (Inr created, c1) \<Rightarrow>
          (case exec sql create_comments (add_columns sql alter_statements c1) of
             (Inl error, c2) \<Rightarrow> (Inl error, c2)
           | (Inr created', c2) \<Rightarrow> read_products sql req res c2))"

text \<open>
  Destructuring \<^verbatim>\<open>req.body\<close> (lines 186-213 and 254-281) throws when the body is
  undefined or \<^verbatim>\<open>null\<close>; otherwise each name is the body's property of that name, or
  undefined. Both patterns start with \<^verbatim>\<open>name\<close>, which Node's message quotes. Of a number,
  a boolean, a string or an array every one of the 26 names is undefined.
\<close>

definition cannot_destructure :: "string \<Rightarrow> js_error" where
  "cannot_destructure what =
     JsError ''TypeError''
       (''Cannot destructure property '' @ quoted ''name'' @ '' of '' @ quoted ''req.body'' @
        '' as it is '' @ what @ ''.'')"

definition destructure :: "json option \<Rightarrow> js_error + (string \<Rightarrow> json option)" where
  "destructure b =
     (case b of
        None \<Rightarrow> Inl (cannot_destructure ''undefined'')
      | Some v \<Rightarrow>
          if v = JNull then Inl (cannot_destructure ''null'')
          else Inr (property v))"

text \<open>The 26 names both destructurings list, in the order of the source.\<close>

definition product_fields :: "string list" where
  "product_fields =
     [''name'', ''price'', ''original_price'', ''category'', ''brand'', ''material'',
      ''shape'', ''color'', ''size'', ''image'', ''gallery'', ''description'',
      ''features'', ''specifications'', ''status'', ''framecolor'', ''style'', ''rim'',
      ''gender'', ''type'', ''featured'', ''bestseller'', ''sizes'', ''lenstypes'',
      ''discount'', ''colorimages'']"

text \<open>\<^verbatim>\<open>handlePost\<close>: three names have a default, used when the property is
  undefined (lines 201, 207, 208).\<close>

definition post_value :: "(string \<Rightarrow> json option) \<Rightarrow> string \<Rightarrow> json option" where
  "post_value given k =
     (case given k of
        Some v \<Rightarrow> Some v
      | None \<Rightarrow>
          if k = ''status'' then Some (JStr ''active'')
          else if k = ''featured'' \<or> k = ''bestseller'' then Some (JBool False)
          else None)"

definition handlePost ::
  "'db sql \<Rightarrow> request \<Rightarrow> response \<Rightarrow> 'db conn \<Rightarrow> (js_error + response) \<times> 'db conn" where
  "handlePost sql req res c =
     (case destructure (req_body req) of
        Inl error \<Rightarrow> (Inl error, c)
      | Inr given \<Rightarrow>
          (case exec sql (InsertProduct (map (\<lambda>k. (k, post_value given k)) product_fields)) c of
             (Inl error, c1) \<Rightarrow> (Inl error, c1)
           | (Inr result, c1) \<Rightarrow>
               (case first_row result of
                  Inl error \<Rightarrow> (Inl error, c1)
                | Inr r \<Rightarrow>
                    (Inr (send 201
                       (JObj [(''success'', JBool True), (''data'', JObj r),
                              (''message'', JStr ''Product created successfully'')]) res), c1))))"

text \<open>\<^verbatim>\<open>handlePut\<close>: one \<^verbatim>\<open>UPDATE products SET ... WHERE id = ${id} RETURNING *\<close>
  (lines 284-315), whose \<^verbatim>\<open>SET\<close> list is the 26 names, each bound to the destructured
  value, and \<^verbatim>\<open>updated_at = NOW()\<close>.\<close>

definition put_statement :: "(string \<Rightarrow> json option) \<Rightarrow> string option \<Rightarrow> stmt" where
  "put_statement given ident =
     UpdateProduct
       ([(''name'', Bind (given ''name'')),
         (''price'', Bind (given ''price'')),
         (''original_price'', Bind (given ''original_price'')),
         (''category'', Bind (given ''category'')),
         (''brand'', Bind (given ''brand'')),
         (''material'', Bind (given ''material'')),
         (''shape'', Bind (given ''shape'')),
         (''color'', Bind (given ''color'')),
         (''size'', Bind (given ''size'')),
         (''image'', Bind (given ''image'')),
         (''gallery'', Bind (given ''gallery'')),
         (''description'', Bind (given ''description'')),
         (''features'', Bind (given ''features'')),
         (''specifications'', Bind (given ''specifications'')),
         (''status'', Bind (given ''status'')),
         (''framecolor'', Bind (given ''framecolor'')),
         (''style'', Bind (given ''style'')),
         (''rim'', Bind (given ''rim'')),
         (''gender'', Bind (given ''gender'')),
         (''type'', Bind (given ''type'')),
         (''featured'', Bind (given ''featured'')),
         (''bestseller'', Bind (given ''bestseller'')),
         (''sizes'', Bind (given ''sizes'')),
         (''lenstypes'', Bind (given ''lenstypes'')),
         (''discount'', Bind (given ''discount'')),
         (''colorimages'', Bind (given ''colorimages'')),
         (''updated_at'', Now)])
       (bound ident)"

definition handlePut ::
  "'db sql \<Rightarrow> request \<Rightarrow> response \<Rightarrow> 'db conn \<Rightarrow> (js_error + response) \<times> 'db conn" where
  "handlePut sql req res c =
     (case destructure (req_body req) of
        Inl error \<Rightarrow> (Inl error, c)
      | Inr given \<Rightarrow>
          (case exec sql (put_statement given (param req ''id'')) c of
             (Inl error, c1) \<Rightarrow> (Inl error, c1)
           | (Inr [], c1) \<Rightarrow>
               (Inr (send 404
                  (JObj [(''success'', JBool False), (''error'', JStr ''Product not found'')]) res), c1)
           | (Inr (r # rs), c1) \<Rightarrow>
               (Inr (send (res_status res)
                  (JObj [(''success'', JBool True), (''data'', JObj r),
                         (''message'', JStr ''Product updated successfully'')]) res), c1)))"

text \<open>\<^verbatim>\<open>handleDelete\<close> (lines 336-389).\<close>

definition handleDelete ::
  "'db sql \<Rightarrow> request \<Rightarrow> response \<Rightarrow> 'db conn \<Rightarrow> (js_error + response) \<times> 'db conn" where
  "handleDelete sql req res c =
     (case given_param req ''id'' of
        None \<Rightarrow>
          (Inr (send 400
             (JObj [(''success'', JBool False), (''error'', JStr ''Product ID is required'')]) res), c)
      | Some ident \<Rightarrow>
          (case exec sql (SelectById (Some (JStr ident))) c of
             (Inl error, c1) \<Rightarrow> (Inl error, c1)
           | (Inr [], c1) \<Rightarrow>
               (Inr (send 404
                  (JObj [(''success'', JBool False), (''error'', JStr ''Product not found''),
                         (''message'', JStr ''Product not found'')]) res), c1)
           | (Inr (existing # others), c1) \<Rightarrow>
               (case exec sql (DeleteById (Some (JStr ident))) c1 of
                  (Inl error, c2) \<Rightarrow> (Inl error, c2)
                | (Inr result, c2) \<Rightarrow>
                    (case first_row result of
                       Inl error \<Rightarrow> (Inl error, c2)
                     | Inr r \<Rightarrow>
                         (Inr (send (res_status res)
                            (JObj [(''success'', JBool True),
                                   (''message'', JStr ''Product deleted successfully''),
                                   (''data'', JObj r)]) res), c2)))))"

text \<open>\<^verbatim>\<open>handler\<close> (lines 15-50): the preflight answer, the CORS headers, the dispatch
  on the verb, and the \<^verbatim>\<open>catch\<close> that turns every thrown error into a 500.\<close>

definition dispatch ::
  "'db sql \<Rightarrow> request \<Rightarrow> response \<Rightarrow> 'db conn \<Rightarrow> (js_error + response) \<times> 'db conn" where
  "dispatch sql req res c =
     (if req_method req = ''GET'' then handleGet sql req res c
      else if req_method req = ''POST'' then handlePost sql req res c
      else if req_method req = ''PUT'' then handlePut sql req res c
      else if req_method req = ''DELETE'' then handleDelete sql req res c
      else (Inr (send 405
              (JObj [(''success'', JBool False), (''error'', JStr ''Method not allowed'')]) res), c))"

definition handler :: "'db sql \<Rightarrow> request \<Rightarrow> 'db conn \<Rightarrow> response \<times> 'db conn" where
  "handler sql req c =
     (if req_method req = ''OPTIONS'' then (send 200 (JObj []) fresh_response, c)
      else
        (let res = fold setHeader corsHeaders fresh_response in
         case dispatch sql req res c of
           (Inr sent, c1) \<Rightarrow> (sent, c1)
         | (Inl error, c1) \<Rightarrow>
             (send 500
                (JObj [(''success'', JBool False), (''error'', JStr ''Internal server error''),
                       (''message'', JStr (err_message error))]) res, c1)))"

section \<open>Reading the trace\<close>

text \<open>An entry of the trace failed when the store threw on its statement.\<close>

definition failed :: "stmt \<times> (js_error + row list) \<Rightarrow> bool" where
  "failed entry = isl (snd entry)"

fun is_add_column :: "stmt \<Rightarrow> bool" where
  "is_add_column (AddColumnIfNotExists t c k) = True"
| "is_add_column st = False"

fun is_read :: "stmt \<Rightarrow> bool" where
  "is_read (SelectById v) = True"
| "is_read (SelectSearch a b c) = True"
| "is_read (SelectCategory v) = True"
| "is_read SelectAll = True"
| "is_read st = False"

section \<open>Concrete stores, remotes and browsers\<close>

text \<open>
  The closed instances below run the two programs on these. A store that answers every
  statement with the same rows, and one that throws on one statement and answers every
  other with no rows; neither keeps a state.
\<close>

definition answering :: "row list \<Rightarrow> unit sql" where
  "answering rows = (\<lambda>st db. (Inr rows, db))"

definition failing_on :: "stmt \<Rightarrow> unit sql" where
  "failing_on bad =
     (\<lambda>st db. (if st = bad then Inl (JsError ''NeonDbError'' ''fetch failed'') else Inr [], db))"

text \<open>
  A table of one row, whose \<^verbatim>\<open>id\<close> is 7, that honours an \<^verbatim>\<open>UPDATE\<close>: when the parameter of
  \<^verbatim>\<open>WHERE id =\<close> is that id (a query gives it as the string \<^verbatim>\<open>7\<close>) the statement returns
  the row as the \<^verbatim>\<open>SET\<close> list writes it, and no row otherwise. In this table an undefined
  parameter is written as \<^verbatim>\<open>NULL\<close> and \<^verbatim>\<open>NOW()\<close> is one fixed instant.
\<close>

definition written :: "expr \<Rightarrow> json" where
  "written e =
     (case e of
        Bind None \<Rightarrow> JNull
      | Bind (Some v) \<Rightarrow> v
      | Now \<Rightarrow> JStr ''2024-01-01T00:00:00.000Z'')"

definition row_7 :: "unit sql" where
  "row_7 =
     (\<lambda>st db.
        case st of
          UpdateProduct assigns ident \<Rightarrow>
            (if ident = Some (JStr ''7'')
             then Inr [(''id'', JNum 7) # map (\<lambda>(k, e). (k, written e)) assigns]
             else Inr [], db)
        | _ \<Rightarrow> (Inr [], db))"

definition idle :: "unit conn" where
  "idle = \<lparr>store = (), trace = []\<rparr>"

definition aviator :: row where
  "aviator = [(''id'', JNum 7), (''name'', JStr ''Aviator Classic'')]"

definition test_product :: json where
  "test_product = JObj [(''name'', JStr ''Test''), (''price'', JNum 10)]"

definition get_all :: request where
  "get_all = \<lparr>req_method = ''GET'', req_query = [], req_body = None\<rparr>"

definition put_7 :: request where
  "put_7 = \<lparr>req_method = ''PUT'', req_query = [(''id'', ''7'')], req_body = Some test_product\<rparr>"

definition put_8 :: request where
  "put_8 = \<lparr>req_method = ''PUT'', req_query = [(''id'', ''8'')], req_body = Some test_product\<rparr>"


text \<open>A bundled sample of two products, the second of which brings an \<^verbatim>\<open>id\<close> of its
  own.\<close>

definition sample_catalog :: "(string \<times> json) list list" where
  "sample_catalog =
     [[(''name'', JStr ''Aviator Classic''), (''price'', JNum 120)],
      [(''id'', JNum 40), (''name'', JStr ''Round Retro'')]]"

text \<open>
  The two built-ins, on the arguments the instances give them. \<open>parseInt_digits\<close> is
  \<^verbatim>\<open>parseInt\<close> on short strings of decimal digits, the ids of a route (the number the
  digits denote), and \<^verbatim>\<open>NaN\<close> on a string that starts with a letter; the instances pass
  no other argument. The conversion to a string is the one of a plain object; the
  instances convert strings only, which \<open>js_String\<close> leaves as they are.
\<close>

definition parseInt_digits :: "json \<Rightarrow> rat option" where
  "parseInt_digits v =
     (case v of
        JStr s \<Rightarrow>
          if takeWhile digit s = [] then None
          else Some (of_nat (foldl (\<lambda>a c. 10 * a + length (takeWhile (\<lambda>d. d \<noteq> c) ''0123456789''))
                               0 (takeWhile digit s)))
      | _ \<Rightarrow> None)"

text \<open>A development host whose backend is down: every \<^verbatim>\<open>fetch\<close> rejects.\<close>

definition unreachable :: "unit env" where
  "unreachable =
     \<lparr>API_BASE_URL = Some ''http://localhost:5004/api'',
      fetch = (\<lambda>request r. (Rejects (JsError ''TypeError'' ''Failed to fetch''), r)),
      sampleProducts = sample_catalog,
      ToString = (\<lambda>v. ''[object Object]''),
      parseInt = parseInt_digits\<rparr>"

text \<open>
  A remote that is the handler of \<^verbatim>\<open>api/products.js\<close> on a store: the request's verb
  and body go to \<open>handler\<close>, and its status and JSON body come back. (How a deployment
  maps the path of the URL to \<^verbatim>\<open>req.query\<close> is not in the sources; the query is
  empty.)
\<close>

definition served_by :: "'db sql \<Rightarrow> 'db env" where
  "served_by sql =
     \<lparr>API_BASE_URL = Some ''http://localhost:5004/api'',
      fetch = (\<lambda>request db.
        case handler sql
               \<lparr>req_method = (case fetch_method request of None \<Rightarrow> ''GET'' | Some m \<Rightarrow> m),
                req_query = [], req_body = fetch_body request\<rparr>
               \<lparr>store = db, trace = []\<rparr> of
          (res, c) \<Rightarrow>
            (Resolves \<lparr>status = res_status res, statusText = [], body = Json (res_body res)\<rparr>,
             store c)),
      sampleProducts = sample_catalog,
      ToString = (\<lambda>v. ''[object Object]''),
      parseInt = parseInt_digits\<rparr>"

text \<open>Browsers: one whose backup slot holds a text that is not JSON, one with an empty
  slot, and one whose slot holds a saved list of two products.\<close>

definition corrupt_storage :: "unit world" where
  "corrupt_storage =
     \<lparr>remote = (), backup = Malformed, getItem_throws = False, setItem_throws = False\<rparr>"

definition empty_storage :: "unit world" where
  "empty_storage =
     \<lparr>remote = (), backup = Absent, getItem_throws = False, setItem_throws = False\<rparr>"

definition saved_list :: "unit world" where
  "saved_list =
     \<lparr>remote = (),
      backup = Holds (JArr [JObj aviator, JObj [(''id'', JNum 12), (''name'', JStr ''Round Retro'')]]),
      getItem_throws = False, setItem_throws = False\<rparr>"

section \<open>The Endpoint Resolver's decision order\<close>

lemma str_includes_self: "str_includes s s"
  by (cases s) simp_all

lemma str_includes_append: "str_includes (t @ s) t"
proof (cases "t @ s")
  case Nil
  then show ?thesis by simp
next
  case (Cons a l)
  have "take (length t) (t @ s) = t" by simp
  with Cons show ?thesis by simp
qed

lemma str_includes_iff: "str_includes s t \<longleftrightarrow> (\<exists>a b. s = a @ t @ b)"
proof
  assume "str_includes s t"
  then show "\<exists>a b. s = a @ t @ b"
  proof (induction s)
    case Nil
    then show ?case by simp
  next
    case (Cons c s)
    from Cons.prems consider "take (length t) (c # s) = t" | "str_includes s t"
      by auto
    then show ?case
    proof cases
      case 1
      have "c # s = take (length t) (c # s) @ drop (length t) (c # s)"
        by (simp only: append_take_drop_id)
      with 1 have "c # s = [] @ t @ drop (length t) (c # s)" by simp
      then show ?thesis by blast
    next
      case 2
      with Cons.IH obtain a b where "s = a @ t @ b" by blast
      then have "c # s = (c # a) @ t @ b" by simp
      then show ?thesis by blast
    qed
  qed
next
  assume "\<exists>a b. s = a @ t @ b"
  then obtain a b where s: "s = a @ t @ b" by blast
  have "str_includes (a @ t @ b) t"
  proof (induction a)
    case Nil
    show ?case using str_includes_append [of t b] by simp
  next
    case (Cons x a)
    then show ?case by simp
  qed
  with s show "str_includes s t" by simp
qed

lemma digits1_iff:
  "digits1 s = Some r \<longleftrightarrow>
     (\<exists>a. a \<noteq> [] \<and> (\<forall>x \<in> set a. digit x) \<and> s = a @ r \<and> (r = [] \<or> \<not> digit (hd r)))"
proof
  assume d: "digits1 s = Some r"
  then have a: "takeWhile digit s \<noteq> []" and r: "r = dropWhile digit s"
    by (auto simp: digits1_def split: if_splits)
  have "s = takeWhile digit s @ r" using r by simp
  moreover have "\<forall>x \<in> set (takeWhile digit s). digit x" by (auto dest: set_takeWhileD)
  moreover have "r = [] \<or> \<not> digit (hd r)" using r hd_dropWhile [of digit s] by auto
  ultimately show "\<exists>a. a \<noteq> [] \<and> (\<forall>x \<in> set a. digit x) \<and> s = a @ r \<and> (r = [] \<or> \<not> digit (hd r))"
    using a by blast
next
  assume "\<exists>a. a \<noteq> [] \<and> (\<forall>x \<in> set a. digit x) \<and> s = a @ r \<and> (r = [] \<or> \<not> digit (hd r))"
  then obtain a where a: "a \<noteq> []" "\<forall>x \<in> set a. digit x" "s = a @ r" "r = [] \<or> \<not> digit (hd r)"
    by blast
  have tr: "takeWhile digit r = []" using a(4) by (cases r) auto
  have dr: "dropWhile digit r = r" using a(4) by (cases r) auto
  have "takeWhile digit s = a" using a(2,3) tr by (simp add: takeWhile_append2)
  moreover have "dropWhile digit s = r" using a(2,3) dr by (simp add: dropWhile_append2)
  ultimately show "digits1 s = Some r" using a(1) by (simp add: digits1_def)
qed

lemma dot_iff: "dot s = Some r \<longleftrightarrow> s = CHR ''.'' # r"
  by (auto simp: dot_def split: list.splits if_splits)

lemma not_digit_dot: "\<not> digit CHR ''.''"
  by (simp add: digit_def)

lemma digits_then_dot:
  "Option.bind (digits1 s) dot = Some r \<longleftrightarrow>
     (\<exists>a. a \<noteq> [] \<and> (\<forall>x \<in> set a. digit x) \<and> s = a @ ''.'' @ r)"
proof
  assume "Option.bind (digits1 s) dot = Some r"
  then obtain r1 where 1: "digits1 s = Some r1" and 2: "dot r1 = Some r"
    by (auto simp: bind_eq_Some_conv)
  from 1 obtain a where "a \<noteq> []" "\<forall>x \<in> set a. digit x" "s = a @ r1"
    unfolding digits1_iff by blast
  with 2 show "\<exists>a. a \<noteq> [] \<and> (\<forall>x \<in> set a. digit x) \<and> s = a @ ''.'' @ r"
    unfolding dot_iff by auto
next
  assume "\<exists>a. a \<noteq> [] \<and> (\<forall>x \<in> set a. digit x) \<and> s = a @ ''.'' @ r"
  then obtain a where a: "a \<noteq> []" "\<forall>x \<in> set a. digit x" "s = a @ ''.'' @ r" by blast
  have "digits1 s = Some (CHR ''.'' # r)"
    unfolding digits1_iff using a not_digit_dot by auto
  then show "Option.bind (digits1 s) dot = Some r"
    by (simp add: dot_def)
qed


text \<open>
  The scanner accepts exactly the dotted quads: four non-empty runs of decimal digits
  separated by three dots, and nothing before or after. (\<open>str_includes_iff\<close> says the
  same of the substring test: it holds exactly when the needle occurs in the string.)
\<close>

lemma matches_ipv4_iff:
  "matches_ipv4 s \<longleftrightarrow>
     (\<exists>a b c d. s = a @ ''.'' @ b @ ''.'' @ c @ ''.'' @ d \<and>
        a \<noteq> [] \<and> b \<noteq> [] \<and> c \<noteq> [] \<and> d \<noteq> [] \<and> (\<forall>x \<in> set (a @ b @ c @ d). digit x))"
proof
  assume "matches_ipv4 s"
  then obtain r3 where 3: "Option.bind (Option.bind (Option.bind (Option.bind (Option.bind
        (digits1 s) dot) digits1) dot) digits1) dot = Some r3" and 4: "digits1 r3 = Some []"
    by (auto simp: matches_ipv4_def bind_eq_Some_conv)
  from 3 obtain r2 where 2: "Option.bind (Option.bind (Option.bind (digits1 s) dot) digits1) dot = Some r2"
    and s3: "Option.bind (digits1 r2) dot = Some r3"
    by (auto simp: bind_eq_Some_conv)
  from 2 obtain r1 where 1: "Option.bind (digits1 s) dot = Some r1"
    and s2: "Option.bind (digits1 r1) dot = Some r2"
    by (auto simp: bind_eq_Some_conv)
  from 1 obtain a where a: "a \<noteq> []" "\<forall>x \<in> set a. digit x" "s = a @ ''.'' @ r1"
    unfolding digits_then_dot by blast
  from s2 obtain b where b: "b \<noteq> []" "\<forall>x \<in> set b. digit x" "r1 = b @ ''.'' @ r2"
    unfolding digits_then_dot by blast
  from s3 obtain c where c: "c \<noteq> []" "\<forall>x \<in> set c. digit x" "r2 = c @ ''.'' @ r3"
    unfolding digits_then_dot by blast
  from 4 obtain d where d: "d \<noteq> []" "\<forall>x \<in> set d. digit x" "r3 = d @ []"
    unfolding digits1_iff by blast
  have "s = a @ ''.'' @ b @ ''.'' @ c @ ''.'' @ d"
    using a(3) b(3) c(3) d(3) by simp
  moreover have "\<forall>x \<in> set (a @ b @ c @ d). digit x"
    using a(2) b(2) c(2) d(2) by auto
  ultimately show "\<exists>a b c d. s = a @ ''.'' @ b @ ''.'' @ c @ ''.'' @ d \<and>
        a \<noteq> [] \<and> b \<noteq> [] \<and> c \<noteq> [] \<and> d \<noteq> [] \<and> (\<forall>x \<in> set (a @ b @ c @ d). digit x)"
    using a(1) b(1) c(1) d(1) by blast
next
  assume "\<exists>a b c d. s = a @ ''.'' @ b @ ''.'' @ c @ ''.'' @ d \<and>
        a \<noteq> [] \<and> b \<noteq> [] \<and> c \<noteq> [] \<and> d \<noteq> [] \<and> (\<forall>x \<in> set (a @ b @ c @ d). digit x)"
  then obtain a b c d where s: "s = a @ ''.'' @ b @ ''.'' @ c @ ''.'' @ d"
    and ne: "a \<noteq> []" "b \<noteq> []" "c \<noteq> []" "d \<noteq> []"
    and dg: "\<forall>x \<in> set a. digit x" "\<forall>x \<in> set b. digit x" "\<forall>x \<in> set c. digit x" "\<forall>x \<in> set d. digit x"
    by auto
  have 1: "Option.bind (digits1 s) dot = Some (b @ ''.'' @ c @ ''.'' @ d)"
    unfolding digits_then_dot using s ne(1) dg(1) by blast
  have 2: "Option.bind (digits1 (b @ ''.'' @ c @ ''.'' @ d)) dot = Some (c @ ''.'' @ d)"
    unfolding digits_then_dot using ne(2) dg(2) by blast
  have 3: "Option.bind (digits1 (c @ ''.'' @ d)) dot = Some d"
    unfolding digits_then_dot using ne(3) dg(3) by blast
  have 4: "digits1 d = Some []"
    unfolding digits1_iff using ne(4) dg(4) by auto
  show "matches_ipv4 s"
    unfolding matches_ipv4_def
    using 1 2 3 4 by simp
qed

theorem matches_ipv4_iff_witness:
  "matches_ipv4 ''192.168.1.20'' \<and>
   ''192.168.1.20'' = ''192'' @ ''.'' @ ''168'' @ ''.'' @ ''1'' @ ''.'' @ ''20''"
proof -
  have "\<exists>a b c d. ''192.168.1.20'' = a @ ''.'' @ b @ ''.'' @ c @ ''.'' @ d \<and>
        a \<noteq> [] \<and> b \<noteq> [] \<and> c \<noteq> [] \<and> d \<noteq> [] \<and> (\<forall>x \<in> set (a @ b @ c @ d). digit x)"
    by (intro exI [of _ "''192''"] exI [of _ "''168''"] exI [of _ "''1''"] exI [of _ "''20''"])
       (simp add: digit_def)
  then have "matches_ipv4 ''192.168.1.20''"
    by (rule matches_ipv4_iff [THEN iffD2])
  then show ?thesis by simp
qed


text \<open>
  \<^bold>\<open>C4\<close>, refuted as stated. The claim sends every host that is neither a loopback name
  nor a bare IPv4 literal to local-only mode, and every loopback host to the fixed
  default address. The host \<^verbatim>\<open>localhost.example.com\<close> is no IPv4 literal and is neither
  \<^verbatim>\<open>localhost\<close> nor \<^verbatim>\<open>127.0.0.1\<close>; the resolver answers with remote mode at that very
  host, which is neither local-only mode nor the default address. Line 20 tests whether
  the host name \<^emph>\<open>contains\<close> \<^verbatim>\<open>localhost\<close>.
\<close>

theorem getApiBaseUrl_substring_host:
  "getApiBaseUrl None ''localhost.example.com'' = Some ''http://localhost.example.com:5004/api'' \<and>
   getApiBaseUrl None ''localhost.example.com'' \<noteq> None \<and>
   getApiBaseUrl None ''localhost.example.com'' \<noteq> Some ''http://localhost:5004/api'' \<and>
   \<not> matches_ipv4 ''localhost.example.com'' \<and>
   ''localhost.example.com'' \<noteq> ''localhost'' \<and>
   ''localhost.example.com'' \<noteq> ''127.0.0.1''"
  by (simp add: getApiBaseUrl_def truthy_string_def matches_ipv4_def digits1_def dot_def digit_def)

text \<open>
  \<^bold>\<open>C4\<close>, as amended: the decision order that holds for every override and host name.
  \<^item> An override that is set and not empty is the answer.
  \<^item> Otherwise a host name that contains neither \<^verbatim>\<open>localhost\<close> nor \<^verbatim>\<open>127.0.0.1\<close> and is
    not four dot-separated runs of digits gives local-only mode.
  \<^item> Otherwise every host name but \<^verbatim>\<open>localhost\<close> and \<^verbatim>\<open>127.0.0.1\<close> themselves (every
    other dotted quad, and every other name that contains one of the two) gives remote
    mode at that host, port 5004, path \<^verbatim>\<open>/api\<close>.
  \<^item> \<^verbatim>\<open>localhost\<close> and \<^verbatim>\<open>127.0.0.1\<close> give \<^verbatim>\<open>http://localhost:5004/api\<close>.
\<close>

theorem getApiBaseUrl_decision_order:
  "(truthy_string override \<longrightarrow> getApiBaseUrl override hostname = override) \<and>
   (\<not> truthy_string override \<and> \<not> str_includes hostname ''localhost'' \<and>
      \<not> str_includes hostname ''127.0.0.1'' \<and> \<not> matches_ipv4 hostname
      \<longrightarrow> getApiBaseUrl override hostname = None) \<and>
   (\<not> truthy_string override \<and>
      (str_includes hostname ''localhost'' \<or> str_includes hostname ''127.0.0.1'' \<or>
       matches_ipv4 hostname) \<and>
      hostname \<noteq> ''localhost'' \<and> hostname \<noteq> ''127.0.0.1''
      \<longrightarrow> getApiBaseUrl override hostname = Some (''http://'' @ hostname @ '':5004/api'')) \<and>
   (\<not> truthy_string override \<and> (hostname = ''localhost'' \<or> hostname = ''127.0.0.1'')
      \<longrightarrow> getApiBaseUrl override hostname = Some ''http://localhost:5004/api'')"
  using str_includes_self [of "''localhost''"] str_includes_self [of "''127.0.0.1''"]
  by (auto simp: getApiBaseUrl_def Let_def simp del: str_includes.simps)

theorem getApiBaseUrl_decision_order_witness:
  "getApiBaseUrl (Some ''https://api.example.com'') ''shop.example.com''
     = Some ''https://api.example.com'' \<and>
   getApiBaseUrl None ''shop.example.com'' = None \<and>
   getApiBaseUrl None ''192.168.1.20'' = Some ''http://192.168.1.20:5004/api'' \<and>
   getApiBaseUrl None ''127.0.0.1'' = Some ''http://localhost:5004/api''"
proof -
  have 1: "truthy_string (Some ''https://api.example.com'')"
    by (simp add: truthy_string_def)
  have 2: "\<not> truthy_string None \<and> \<not> str_includes ''shop.example.com'' ''localhost'' \<and>
      \<not> str_includes ''shop.example.com'' ''127.0.0.1'' \<and> \<not> matches_ipv4 ''shop.example.com''"
    by (simp add: getApiBaseUrl_def truthy_string_def matches_ipv4_def digits1_def dot_def digit_def)
  have 3: "\<not> truthy_string None \<and>
      (str_includes ''192.168.1.20'' ''localhost'' \<or> str_includes ''192.168.1.20'' ''127.0.0.1'' \<or>
       matches_ipv4 ''192.168.1.20'') \<and>
      ''192.168.1.20'' \<noteq> ''localhost'' \<and> ''192.168.1.20'' \<noteq> ''127.0.0.1''"
    by (simp add: getApiBaseUrl_def truthy_string_def matches_ipv4_def digits1_def dot_def digit_def)
  have 4: "\<not> truthy_string None \<and> (''127.0.0.1'' = ''localhost'' \<or> ''127.0.0.1'' = ''127.0.0.1'')"
    by (simp add: truthy_string_def)
  note d = getApiBaseUrl_decision_order
  note a = d [of "Some ''https://api.example.com''" "''shop.example.com''",
      THEN conjunct1, rule_format, OF 1]
  note b = d [of None "''shop.example.com''",
      THEN conjunct2, THEN conjunct1, rule_format, OF 2]
  note c = d [of None "''192.168.1.20''",
      THEN conjunct2, THEN conjunct2, THEN conjunct1, rule_format, OF 3]
  note e = d [of None "''127.0.0.1''",
      THEN conjunct2, THEN conjunct2, THEN conjunct2, rule_format, OF 4]
  from a b c e show ?thesis by simp
qed

section \<open>The Local Backup Store never fails\<close>

lemma seeded_ids:
  "\<exists>ps. seeded sample = JArr ps \<and> length ps = length sample \<and>
     (\<forall>i<length sample. property (ps ! i) ''id'' = Some (JNum (of_nat (i + 1))) \<and>
        (\<forall>k. k \<noteq> ''id'' \<longrightarrow> property (ps ! i) k = map_of (sample ! i) k))"
  by (simp add: seeded_def with_id_def property_def nth_enumerate_eq update_conv')

text \<open>
  \<^bold>\<open>C10\<close>. \<^verbatim>\<open>getStoredProducts\<close> returns a value for every state of the storage: whatever
  its \<^verbatim>\<open>try\<close> block throws, the \<^verbatim>\<open>catch\<close> answers with the seeded sample. When reading
  the slot throws, when the slot is empty or holds the empty string, and when the stored
  text is not JSON, the result is the seeded sample; a stored JSON text is returned as
  parsed. The seeded sample has one element per bundled product, in order; element \<open>i\<close>
  (counted from 0) has \<^verbatim>\<open>id\<close> \<open>i + 1\<close> and every other property of the bundled product.
\<close>

theorem getStoredProducts_total:
  "(read_backup env w = Inl e \<longrightarrow> getStoredProducts env w = seeded (sampleProducts env)) \<and>
   (getItem_throws w \<or> backup w = Absent \<or> backup w = EmptyText \<or> backup w = Malformed
      \<longrightarrow> getStoredProducts env w = seeded (sampleProducts env)) \<and>
   (\<not> getItem_throws w \<and> backup w = Holds stored \<longrightarrow> getStoredProducts env w = stored) \<and>
   (\<exists>ps. seeded (sampleProducts env) = JArr ps \<and> length ps = length (sampleProducts env) \<and>
     (\<forall>i<length (sampleProducts env).
        property (ps ! i) ''id'' = Some (JNum (of_nat (i + 1))) \<and>
        (\<forall>k. k \<noteq> ''id'' \<longrightarrow> property (ps ! i) k = map_of (sampleProducts env ! i) k)))"
  using seeded_ids [of "sampleProducts env"]
  by (auto simp: getStoredProducts_def read_backup_def split: slot.splits)

theorem getStoredProducts_total_witness:
  "read_backup unreachable corrupt_storage = Inl (JsError ''SyntaxError'' ''Unexpected token in JSON'') \<and>
   getStoredProducts unreachable corrupt_storage =
     JArr [JObj [(''name'', JStr ''Aviator Classic''), (''price'', JNum 120), (''id'', JNum 1)],
           JObj [(''id'', JNum 2), (''name'', JStr ''Round Retro'')]]"
proof -
  have r: "read_backup unreachable corrupt_storage =
      Inl (JsError ''SyntaxError'' ''Unexpected token in JSON'')"
    by (simp add: read_backup_def unreachable_def corrupt_storage_def)
  note getStoredProducts_total [of unreachable corrupt_storage, THEN conjunct1, rule_format, OF r]
  moreover have "seeded (sampleProducts unreachable) =
     JArr [JObj [(''name'', JStr ''Aviator Classic''), (''price'', JNum 120), (''id'', JNum 1)],
           JObj [(''id'', JNum 2), (''name'', JStr ''Round Retro'')]]"
    by (simp add: seeded_def with_id_def unreachable_def sample_catalog_def)
  ultimately show ?thesis using r by simp
qed

section \<open>Read-all\<close>

lemma apiRequest_storage:
  "apiRequest env endpoint options w = (result, w1) \<Longrightarrow>
     backup w1 = backup w \<and> getItem_throws w1 = getItem_throws w \<and>
     setItem_throws w1 = setItem_throws w"
  by (auto simp: apiRequest_def split: if_splits option.splits prod.splits fetch_result.splits)

lemma getStoredProducts_remote:
  "backup w1 = backup w \<Longrightarrow> getItem_throws w1 = getItem_throws w \<Longrightarrow>
     getStoredProducts env w1 = getStoredProducts env w"
  by (simp add: getStoredProducts_def read_backup_def)

lemma unwrap_not_null: "unwrap data key = Some v \<Longrightarrow> v \<noteq> JNull"
  by (auto simp: unwrap_def truthy_def split: if_splits)

lemma normalize_not_null: "normalize data = Inr v \<Longrightarrow> v \<noteq> JNull"
  by (auto simp: normalize_def js_get_def dest: unwrap_not_null split: if_splits option.splits)

lemma from_response_not_null: "from_response env response = Inr v \<Longrightarrow> v \<noteq> JNull"
  by (auto simp: from_response_def Let_def dest: normalize_not_null
      split: if_splits sum.splits body_json.splits)

lemma apiRequest_not_null: "apiRequest env endpoint options w = (Inr v, w1) \<Longrightarrow> v \<noteq> JNull"
  by (auto simp: apiRequest_def dest: from_response_not_null
      split: if_splits option.splits prod.splits fetch_result.splits)

lemma getStoredProducts_not_null:
  "backup w \<noteq> Holds JNull \<Longrightarrow> getStoredProducts env w \<noteq> JNull"
  by (auto simp: getStoredProducts_def read_backup_def seeded_def split: slot.splits)

lemma from_backup_loads:
  "backup w \<noteq> Holds JNull \<Longrightarrow> from_backup env w = (Inr (getStoredProducts env w), w)"
  using getStoredProducts_not_null [of w env]
  by (simp add: from_backup_def Let_def js_get_def)

lemma getStoredProducts_fetch:
  "getStoredProducts (env\<lparr>fetch := f\<rparr>) w = getStoredProducts env w"
  by (cases "backup w") (simp_all add: getStoredProducts_def read_backup_def)

lemma from_backup_fetch: "from_backup (env\<lparr>fetch := f\<rparr>) w = from_backup env w"
  by (simp add: from_backup_def getStoredProducts_fetch)

text \<open>
  What holds of read-all for every resolver outcome and every remote outcome, when the
  backup slot does not hold the JSON text \<^verbatim>\<open>null\<close>: it returns a value and never an
  error; in local-only mode the value is what \<^verbatim>\<open>getStoredProducts\<close> returns, nothing is
  changed and the result does not depend on \<^verbatim>\<open>fetch\<close>; and whenever the remote request
  fails, the value is what \<^verbatim>\<open>getStoredProducts\<close> returns.
\<close>

theorem getAllProducts_total:
  assumes "backup w \<noteq> Holds JNull"
  shows "(\<exists>products w1. getAllProducts env w = (Inr products, w1)) \<and>
         (\<not> truthy_string (API_BASE_URL env) \<longrightarrow>
            getAllProducts env w = (Inr (getStoredProducts env w), w) \<and>
            (\<forall>f. getAllProducts (env\<lparr>fetch := f\<rparr>) w = getAllProducts env w)) \<and>
         (\<forall>e w1. apiRequest env ''/products'' no_options w = (Inl e, w1) \<longrightarrow>
            getAllProducts env w = (Inr (getStoredProducts env w), w1))"
proof (intro conjI)
  show "\<exists>products w1. getAllProducts env w = (Inr products, w1)"
  proof (cases "truthy_string (API_BASE_URL env)")
    case False
    then show ?thesis
      using from_backup_loads [OF assms, of env] by (simp add: getAllProducts_def)
  next
    case True
    obtain result w1 where r: "apiRequest env ''/products'' no_options w = (result, w1)"
      by (cases "apiRequest env ''/products'' no_options w")
    from apiRequest_storage [OF r] assms have b: "backup w1 \<noteq> Holds JNull" by simp
    show ?thesis
    proof (cases result)
      case (Inl e)
      with True r from_backup_loads [OF b, of env] show ?thesis
        by (simp add: getAllProducts_def)
    next
      case (Inr products)
      with r have "products \<noteq> JNull" by (auto dest: apiRequest_not_null)
      with True r Inr show ?thesis
        by (simp add: getAllProducts_def js_get_def)
    qed
  qed
next
  show "\<not> truthy_string (API_BASE_URL env) \<longrightarrow>
          getAllProducts env w = (Inr (getStoredProducts env w), w) \<and>
          (\<forall>f. getAllProducts (env\<lparr>fetch := f\<rparr>) w = getAllProducts env w)"
    using from_backup_loads [OF assms, of env]
    by (simp add: getAllProducts_def from_backup_fetch)
next
  show "\<forall>e w1. apiRequest env ''/products'' no_options w = (Inl e, w1) \<longrightarrow>
          getAllProducts env w = (Inr (getStoredProducts env w), w1)"
  proof (intro allI impI)
    fix e w1
    assume r: "apiRequest env ''/products'' no_options w = (Inl e, w1)"
    from apiRequest_storage [OF r] assms have b: "backup w1 \<noteq> Holds JNull" by simp
    have same: "getStoredProducts env w1 = getStoredProducts env w"
      using apiRequest_storage [OF r] by (intro getStoredProducts_remote) simp_all
    have w: "\<not> truthy_string (API_BASE_URL env) \<Longrightarrow> w1 = w"
      using r by (simp add: apiRequest_def)
    show "getAllProducts env w = (Inr (getStoredProducts env w), w1)"
      using r from_backup_loads [OF b, of env] from_backup_loads [OF assms, of env] same w
      by (cases "truthy_string (API_BASE_URL env)") (simp_all add: getAllProducts_def)
  qed
qed

theorem getAllProducts_total_witness:
  "backup corrupt_storage \<noteq> Holds JNull \<and>
   apiRequest unreachable ''/products'' no_options corrupt_storage =
     (Inl (JsError ''TypeError'' ''Failed to fetch''), corrupt_storage) \<and>
   getAllProducts unreachable corrupt_storage =
     (Inr (JArr [JObj [(''name'', JStr ''Aviator Classic''), (''price'', JNum 120), (''id'', JNum 1)],
                 JObj [(''id'', JNum 2), (''name'', JStr ''Round Retro'')]]),
      corrupt_storage)"
proof -
  have h: "backup corrupt_storage \<noteq> Holds JNull"
    by (simp add: corrupt_storage_def)
  have r: "apiRequest unreachable ''/products'' no_options corrupt_storage =
     (Inl (JsError ''TypeError'' ''Failed to fetch''), corrupt_storage)"
    by (simp add: apiRequest_def unreachable_def corrupt_storage_def truthy_string_def no_options_def)
  note getAllProducts_total [OF h, of unreachable, THEN conjunct2, THEN conjunct2, rule_format, OF r]
  moreover have "getStoredProducts unreachable corrupt_storage =
     JArr [JObj [(''name'', JStr ''Aviator Classic''), (''price'', JNum 120), (''id'', JNum 1)],
           JObj [(''id'', JNum 2), (''name'', JStr ''Round Retro'')]]"
    by (simp add: getStoredProducts_def read_backup_def seeded_def with_id_def unreachable_def
        corrupt_storage_def sample_catalog_def)
  ultimately show ?thesis using h r by simp
qed

text \<open>
  \<^bold>\<open>C3\<close>, on two inputs where read-all does not do what the claim says.
  \<^item> The remote is the handler of \<^verbatim>\<open>api/products.js\<close> on a table of one row, and the
    request succeeds. The handler answers \<^verbatim>\<open>{success, data, count, source}\<close>; lines 82-93
    look for \<^verbatim>\<open>products\<close> and \<^verbatim>\<open>product\<close>, find neither, and return the whole answer.
    Read-all returns that object, which is not a list, and saves it as the backup.
  \<^item> The backup slot holds the JSON text \<^verbatim>\<open>null\<close>. \<^verbatim>\<open>getStoredProducts\<close> returns
    \<^verbatim>\<open>null\<close>, and the log line that follows reads \<^verbatim>\<open>products.length\<close> outside any \<^verbatim>\<open>try\<close>
    (line 173) or inside the \<^verbatim>\<open>catch\<close> (line 191): read-all throws a \<^verbatim>\<open>TypeError\<close>,
    in local-only mode and after a failed request alike.
\<close>

theorem getAllProducts_envelope_and_null_backup:
  "getAllProducts (served_by (answering [aviator])) empty_storage =
     (Inr (JObj [(''success'', JBool True), (''data'', JArr [JObj aviator]),
                 (''count'', JNum 1), (''source'', JStr ''neon'')]),
      empty_storage\<lparr>backup :=
        Holds (JObj [(''success'', JBool True), (''data'', JArr [JObj aviator]),
                     (''count'', JNum 1), (''source'', JStr ''neon'')])\<rparr>) \<and>
   \<not> isArray (JObj [(''success'', JBool True), (''data'', JArr [JObj aviator]),
                    (''count'', JNum 1), (''source'', JStr ''neon'')]) \<and>
   getAllProducts (unreachable\<lparr>API_BASE_URL := None\<rparr>) (empty_storage\<lparr>backup := Holds JNull\<rparr>) =
     (Inl (null_read ''length''), empty_storage\<lparr>backup := Holds JNull\<rparr>) \<and>
   getAllProducts unreachable (empty_storage\<lparr>backup := Holds JNull\<rparr>) =
     (Inl (null_read ''length''), empty_storage\<lparr>backup := Holds JNull\<rparr>)"
proof (intro conjI)
  have page: "fst (handler (answering [aviator])
         \<lparr>req_method = ''GET'', req_query = [], req_body = None\<rparr> \<lparr>store = (), trace = []\<rparr>) =
       \<lparr>res_status = 200, res_headers = corsHeaders,
         res_body = JObj [(''success'', JBool True), (''data'', JArr [JObj aviator]),
                          (''count'', JNum 1), (''source'', JStr ''neon'')]\<rparr>"
    by (simp add: handler_def dispatch_def handleGet_def read_products_def given_param_def param_def
        exec_def listing_def send_def setHeader_def corsHeaders_def fresh_response_def
        truthy_string_def answering_def alter_statements_def)
  show "getAllProducts (served_by (answering [aviator])) empty_storage =
     (Inr (JObj [(''success'', JBool True), (''data'', JArr [JObj aviator]),
                 (''count'', JNum 1), (''source'', JStr ''neon'')]),
      empty_storage\<lparr>backup :=
        Holds (JObj [(''success'', JBool True), (''data'', JArr [JObj aviator]),
                     (''count'', JNum 1), (''source'', JStr ''neon'')])\<rparr>)"
    by (simp add: getAllProducts_def apiRequest_def from_response_def normalize_def unwrap_def
        js_get_def property_def truthy_def truthy_string_def isArray_def ok_def
        saveProductsBackup_def no_options_def served_by_def empty_storage_def page split_beta)
  show "\<not> isArray (JObj [(''success'', JBool True), (''data'', JArr [JObj aviator]),
                    (''count'', JNum 1), (''source'', JStr ''neon'')])"
    by (simp add: isArray_def)
  show "getAllProducts (unreachable\<lparr>API_BASE_URL := None\<rparr>) (empty_storage\<lparr>backup := Holds JNull\<rparr>) =
     (Inl (null_read ''length''), empty_storage\<lparr>backup := Holds JNull\<rparr>)"
    by (simp add: getAllProducts_def from_backup_def getStoredProducts_def read_backup_def
        js_get_def truthy_string_def unreachable_def empty_storage_def)
  show "getAllProducts unreachable (empty_storage\<lparr>backup := Holds JNull\<rparr>) =
     (Inl (null_read ''length''), empty_storage\<lparr>backup := Holds JNull\<rparr>)"
    by (simp add: getAllProducts_def from_backup_def getStoredProducts_def read_backup_def
        js_get_def truthy_string_def unreachable_def empty_storage_def apiRequest_def no_options_def)
qed

section \<open>Read-one\<close>

lemma property_id_truthy: "strict_equals (property p ''id'') n \<Longrightarrow> truthy_value p"
  by (cases p) (auto simp: strict_equals_def property_def split: option.splits json.splits)

lemma find_by_id_find:
  "JNull \<notin> set products \<Longrightarrow>
     find_by_id n products = Inr (find (\<lambda>p. strict_equals (property p ''id'') n) products)"
  by (induction products) (auto simp: js_get_def)

text \<open>
  What holds of read-one when the backup is a list none of whose elements is \<^verbatim>\<open>null\<close>.
  Let the remote request for the product fail (in local-only mode it always does). Then
  \<^verbatim>\<open>getProductById\<close> returns the first element of the list whose \<^verbatim>\<open>id\<close> is a number
  equal to \<^verbatim>\<open>parseInt(id)\<close>, and when there is none it throws an error whose message is
  \<^verbatim>\<open>Product with ID <id> not found\<close>. The storage is not changed.
\<close>

theorem getProductById_fallback:
  assumes "apiRequest env (''/products/'' @ js_String env ident) no_options w = (Inl e, w1)"
      and "getStoredProducts env w = JArr products"
      and "JNull \<notin> set products"
  shows "getProductById env ident w =
           (case find (\<lambda>p. strict_equals (property p ''id'') (parseInt env ident)) products of
              Some product \<Rightarrow> (Inr product, w1)
            | None \<Rightarrow>
                (Inl (JsError ''Error''
                   (''Product with ID '' @ js_String env ident @ '' not found'')), w1)) \<and>
         backup w1 = backup w"
proof -
  have "getStoredProducts env w1 = getStoredProducts env w"
    using apiRequest_storage [OF assms(1)] by (intro getStoredProducts_remote) simp_all
  with assms(2) have same: "getStoredProducts env w1 = JArr products" by simp
  have "getProductById env ident w =
           (case find (\<lambda>p. strict_equals (property p ''id'') (parseInt env ident)) products of
              Some product \<Rightarrow> (Inr product, w1)
            | None \<Rightarrow>
                (Inl (JsError ''Error''
                   (''Product with ID '' @ js_String env ident @ '' not found'')), w1))"
  proof (cases "find (\<lambda>p. strict_equals (property p ''id'') (parseInt env ident)) products")
    case None
    with assms(1) same find_by_id_find [OF assms(3)] show ?thesis
      by (simp add: getProductById_def not_found_def)
  next
    case (Some product)
    then have "strict_equals (property product ''id'') (parseInt env ident)"
      by (auto simp: find_Some_iff)
    then have "truthy_value product" by (rule property_id_truthy)
    with Some assms(1) same find_by_id_find [OF assms(3)] show ?thesis
      by (simp add: getProductById_def)
  qed
  with apiRequest_storage [OF assms(1)] show ?thesis by simp
qed

theorem getProductById_fallback_witness:
  "apiRequest unreachable (''/products/'' @ js_String unreachable (JStr ''12'')) no_options saved_list =
     (Inl (JsError ''TypeError'' ''Failed to fetch''), saved_list) \<and>
   getStoredProducts unreachable saved_list =
     JArr [JObj aviator, JObj [(''id'', JNum 12), (''name'', JStr ''Round Retro'')]] \<and>
   getProductById unreachable (JStr ''7'') saved_list = (Inr (JObj aviator), saved_list) \<and>
   getProductById unreachable (JStr ''12'') saved_list =
     (Inr (JObj [(''id'', JNum 12), (''name'', JStr ''Round Retro'')]), saved_list) \<and>
   getProductById unreachable (JStr ''3'') saved_list =
     (Inl (JsError ''Error'' ''Product with ID 3 not found''), saved_list)"
proof -
  let ?ps = "[JObj aviator, JObj [(''id'', JNum 12), (''name'', JStr ''Round Retro'')]]"
  have r: "\<And>i. apiRequest unreachable (''/products/'' @ js_String unreachable (JStr i)) no_options
        saved_list = (Inl (JsError ''TypeError'' ''Failed to fetch''), saved_list)"
    by (simp add: apiRequest_def unreachable_def saved_list_def truthy_string_def no_options_def)
  have s: "getStoredProducts unreachable saved_list = JArr ?ps"
    by (simp add: getStoredProducts_def read_backup_def saved_list_def)
  have n: "JNull \<notin> set ?ps" by simp
  have p: "parseInt unreachable (JStr ''7'') = Some 7" "parseInt unreachable (JStr ''12'') = Some 12"
      "parseInt unreachable (JStr ''3'') = Some 3"
    by (simp_all add: unreachable_def parseInt_digits_def digit_def)
  from getProductById_fallback [OF r s n, of "''7''"] p(1)
  have a: "getProductById unreachable (JStr ''7'') saved_list = (Inr (JObj aviator), saved_list)"
    by (simp add: strict_equals_def property_def aviator_def)
  from getProductById_fallback [OF r s n, of "''12''"] p(2)
  have b: "getProductById unreachable (JStr ''12'') saved_list =
     (Inr (JObj [(''id'', JNum 12), (''name'', JStr ''Round Retro'')]), saved_list)"
    by (simp add: strict_equals_def property_def aviator_def)
  from getProductById_fallback [OF r s n, of "''3''"] p(3)
  have c: "getProductById unreachable (JStr ''3'') saved_list =
     (Inl (JsError ''Error'' ''Product with ID 3 not found''), saved_list)"
    by (simp add: strict_equals_def property_def aviator_def js_String_def)
  from r [of "''12''"] s a b c show ?thesis by simp
qed

text \<open>
  \<^bold>\<open>C9\<close>, on two states of the backup where read-one does not do what the claim says.
  \<^item> Read-all has succeeded against the handler of \<^verbatim>\<open>api/products.js\<close> on a table whose
    one row has \<^verbatim>\<open>id\<close> 7, and has saved the handler's answer
    \<^verbatim>\<open>{success, data, count, source}\<close> as the backup. The remote then fails. Line 205 calls
    \<^verbatim>\<open>products.find\<close> on that object, which has no such method: read-one for 7 throws
    a \<^verbatim>\<open>TypeError\<close>. It neither returns the product, which is in the backup's \<^verbatim>\<open>data\<close>,
    nor fails with the not-found error.
  \<^item> The backup slot holds the JSON text \<^verbatim>\<open>null\<close>. \<^verbatim>\<open>getStoredProducts\<close> returns
    \<^verbatim>\<open>null\<close> and line 205 reads \<^verbatim>\<open>find\<close> of it: a \<^verbatim>\<open>TypeError\<close> again.
\<close>

theorem getProductById_on_saved_envelope:
  "snd (getAllProducts (served_by (answering [aviator])) empty_storage) =
     empty_storage\<lparr>backup :=
       Holds (JObj [(''success'', JBool True), (''data'', JArr [JObj aviator]),
                    (''count'', JNum 1), (''source'', JStr ''neon'')])\<rparr> \<and>
   property (JObj aviator) ''id'' = Some (JNum 7) \<and>
   getProductById unreachable (JStr ''7'')
       (snd (getAllProducts (served_by (answering [aviator])) empty_storage)) =
     (Inl (JsError ''TypeError'' ''products.find is not a function''),
      snd (getAllProducts (served_by (answering [aviator])) empty_storage)) \<and>
   getProductById unreachable (JStr ''7'') (empty_storage\<lparr>backup := Holds JNull\<rparr>) =
     (Inl (null_read ''find''), empty_storage\<lparr>backup := Holds JNull\<rparr>)"
proof -
  have page: "fst (handler (answering [aviator])
         \<lparr>req_method = ''GET'', req_query = [], req_body = None\<rparr> \<lparr>store = (), trace = []\<rparr>) =
       \<lparr>res_status = 200, res_headers = corsHeaders,
         res_body = JObj [(''success'', JBool True), (''data'', JArr [JObj aviator]),
                          (''count'', JNum 1), (''source'', JStr ''neon'')]\<rparr>"
    by (simp add: handler_def dispatch_def handleGet_def read_products_def given_param_def param_def
        exec_def listing_def send_def setHeader_def corsHeaders_def fresh_response_def
        truthy_string_def answering_def alter_statements_def)
  have saved: "snd (getAllProducts (served_by (answering [aviator])) empty_storage) =
     empty_storage\<lparr>backup :=
       Holds (JObj [(''success'', JBool True), (''data'', JArr [JObj aviator]),
                    (''count'', JNum 1), (''source'', JStr ''neon'')])\<rparr>"
    by (simp add: getAllProducts_def apiRequest_def from_response_def normalize_def unwrap_def
        js_get_def property_def truthy_def truthy_string_def isArray_def ok_def
        saveProductsBackup_def no_options_def served_by_def empty_storage_def page split_beta)
  have ident: "property (JObj aviator) ''id'' = Some (JNum 7)"
    by (simp add: property_def aviator_def)
  have envelope: "getProductById unreachable (JStr ''7'')
       (empty_storage\<lparr>backup :=
          Holds (JObj [(''success'', JBool True), (''data'', JArr [JObj aviator]),
                       (''count'', JNum 1), (''source'', JStr ''neon'')])\<rparr>) =
     (Inl (JsError ''TypeError'' ''products.find is not a function''),
      empty_storage\<lparr>backup :=
          Holds (JObj [(''success'', JBool True), (''data'', JArr [JObj aviator]),
                       (''count'', JNum 1), (''source'', JStr ''neon'')])\<rparr>)"
    by (simp add: getProductById_def apiRequest_def getStoredProducts_def read_backup_def
        truthy_string_def unreachable_def empty_storage_def no_options_def)
  have null: "getProductById unreachable (JStr ''7'') (empty_storage\<lparr>backup := Holds JNull\<rparr>) =
     (Inl (null_read ''find''), empty_storage\<lparr>backup := Holds JNull\<rparr>)"
    by (simp add: getProductById_def apiRequest_def getStoredProducts_def read_backup_def
        truthy_string_def unreachable_def empty_storage_def no_options_def)
  from saved ident envelope null show ?thesis by simp
qed

section \<open>Create, update and delete fail loudly\<close>

lemma createProduct_failure:
  "apiRequest env ''/products'' \<lparr>opt_method = Some ''POST'', opt_body = Some productData\<rparr> w
      = (Inl e, w1)
     \<Longrightarrow> createProduct env productData w =
           (Inl (JsError ''Error'' (''Failed to create product: '' @ err_message e)), w1)"
  by (simp add: createProduct_def)

lemma updateProduct_failure:
  "apiRequest env (''/products/'' @ js_String env ident)
       \<lparr>opt_method = Some ''PUT'', opt_body = Some productData\<rparr> w = (Inl e, w1)
     \<Longrightarrow> updateProduct env ident productData w =
           (Inl (JsError ''Error'' (''Failed to update product: '' @ err_message e)), w1)"
  by (simp add: updateProduct_def)

lemma deleteProduct_failure:
  "apiRequest env (''/products/'' @ js_String env ident)
       \<lparr>opt_method = Some ''DELETE'', opt_body = None\<rparr> w = (Inl e, w1)
     \<Longrightarrow> deleteProduct env ident w =
           (Inl (JsError ''Error'' (''Failed to delete product: '' @ err_message e)), w1)"
  by (simp add: deleteProduct_def)

lemma apiRequest_rejected:
  "API_BASE_URL env = Some base \<Longrightarrow> base \<noteq> [] \<Longrightarrow>
   fetch env \<lparr>url = base @ endpoint, fetch_method = opt_method options,
              fetch_headers = [(''Content-Type'', ''application/json'')],
              fetch_body = opt_body options\<rparr> (remote w) = (Rejects e, r) \<Longrightarrow>
   apiRequest env endpoint options w = (Inl e, w\<lparr>remote := r\<rparr>)"
  by (simp add: apiRequest_def truthy_string_def)

text \<open>
  \<^bold>\<open>C6\<close>. Whenever the remote request of \<^verbatim>\<open>createProduct\<close>, \<^verbatim>\<open>updateProduct\<close> or
  \<^verbatim>\<open>deleteProduct\<close> fails, whatever the failure (no base address, a rejected \<^verbatim>\<open>fetch\<close>,
  a status outside 200-299, a body that is not JSON), the operation throws an error whose
  message is \<^verbatim>\<open>Failed to create product: \<close>, \<^verbatim>\<open>Failed to update product: \<close> or
  \<^verbatim>\<open>Failed to delete product: \<close> followed by the message of the failure, and the backup
  slot is what it was. In particular, when \<^verbatim>\<open>fetch\<close> rejects the request of
  \<^verbatim>\<open>createProduct\<close>, the message contains \<^verbatim>\<open>Failed to create product\<close>.
\<close>

theorem mutations_wrap_remote_failure:
  "(\<forall>e w1. apiRequest env ''/products''
              \<lparr>opt_method = Some ''POST'', opt_body = Some productData\<rparr> w = (Inl e, w1)
      \<longrightarrow> createProduct env productData w =
            (Inl (JsError ''Error'' (''Failed to create product: '' @ err_message e)), w1) \<and>
          backup w1 = backup w) \<and>
   (\<forall>e w1. apiRequest env (''/products/'' @ js_String env ident)
              \<lparr>opt_method = Some ''PUT'', opt_body = Some productData\<rparr> w = (Inl e, w1)
      \<longrightarrow> updateProduct env ident productData w =
            (Inl (JsError ''Error'' (''Failed to update product: '' @ err_message e)), w1) \<and>
          backup w1 = backup w) \<and>
   (\<forall>e w1. apiRequest env (''/products/'' @ js_String env ident)
              \<lparr>opt_method = Some ''DELETE'', opt_body = None\<rparr> w = (Inl e, w1)
      \<longrightarrow> deleteProduct env ident w =
            (Inl (JsError ''Error'' (''Failed to delete product: '' @ err_message e)), w1) \<and>
          backup w1 = backup w) \<and>
   (\<forall>base e r. API_BASE_URL env = Some base \<and> base \<noteq> [] \<and>
       fetch env \<lparr>url = base @ ''/products'', fetch_method = Some ''POST'',
                  fetch_headers = [(''Content-Type'', ''application/json'')],
                  fetch_body = Some productData\<rparr> (remote w) = (Rejects e, r)
      \<longrightarrow> (\<exists>m. createProduct env productData w = (Inl (JsError ''Error'' m), w\<lparr>remote := r\<rparr>) \<and>
               str_includes m ''Failed to create product''))"
proof (intro conjI allI impI)
  fix base e r
  assume a: "API_BASE_URL env = Some base \<and> base \<noteq> [] \<and>
       fetch env \<lparr>url = base @ ''/products'', fetch_method = Some ''POST'',
                  fetch_headers = [(''Content-Type'', ''application/json'')],
                  fetch_body = Some productData\<rparr> (remote w) = (Rejects e, r)"
  have "apiRequest env ''/products'' \<lparr>opt_method = Some ''POST'', opt_body = Some productData\<rparr> w
          = (Inl e, w\<lparr>remote := r\<rparr>)"
    using a by (intro apiRequest_rejected [of env base]) simp_all
  then have "createProduct env productData w =
      (Inl (JsError ''Error'' (''Failed to create product: '' @ err_message e)), w\<lparr>remote := r\<rparr>)"
    by (rule createProduct_failure)
  moreover have "str_includes (''Failed to create product'' @ '': '' @ err_message e)
      ''Failed to create product''"
    by (rule str_includes_append)
  ultimately show "\<exists>m. createProduct env productData w =
        (Inl (JsError ''Error'' m), w\<lparr>remote := r\<rparr>) \<and>
      str_includes m ''Failed to create product''"
    by (intro exI [of _ "''Failed to create product: '' @ err_message e"]) simp
next
  fix e w1
  assume "apiRequest env ''/products''
      \<lparr>opt_method = Some ''POST'', opt_body = Some productData\<rparr> w = (Inl e, w1)"
  then show "createProduct env productData w =
      (Inl (JsError ''Error'' (''Failed to create product: '' @ err_message e)), w1)"
    and "backup w1 = backup w"
    by (rule createProduct_failure, rule apiRequest_storage [THEN conjunct1])
next
  fix e w1
  assume "apiRequest env (''/products/'' @ js_String env ident)
      \<lparr>opt_method = Some ''PUT'', opt_body = Some productData\<rparr> w = (Inl e, w1)"
  then show "updateProduct env ident productData w =
      (Inl (JsError ''Error'' (''Failed to update product: '' @ err_message e)), w1)"
    and "backup w1 = backup w"
    by (rule updateProduct_failure, rule apiRequest_storage [THEN conjunct1])
next
  fix e w1
  assume "apiRequest env (''/products/'' @ js_String env ident)
      \<lparr>opt_method = Some ''DELETE'', opt_body = None\<rparr> w = (Inl e, w1)"
  then show "deleteProduct env ident w =
      (Inl (JsError ''Error'' (''Failed to delete product: '' @ err_message e)), w1)"
    and "backup w1 = backup w"
    by (rule deleteProduct_failure, rule apiRequest_storage [THEN conjunct1])
qed

theorem mutations_wrap_remote_failure_witness:
  "apiRequest unreachable ''/products''
      \<lparr>opt_method = Some ''POST'', opt_body = Some test_product\<rparr> corrupt_storage =
     (Inl (JsError ''TypeError'' ''Failed to fetch''), corrupt_storage) \<and>
   createProduct unreachable test_product corrupt_storage =
     (Inl (JsError ''Error'' ''Failed to create product: Failed to fetch''), corrupt_storage) \<and>
   apiRequest (unreachable\<lparr>API_BASE_URL := None\<rparr>) (''/products/'' @ ''7'')
      \<lparr>opt_method = Some ''DELETE'', opt_body = None\<rparr> corrupt_storage =
     (Inl (JsError ''Error'' ''No API URL configured - using localStorage''), corrupt_storage) \<and>
   deleteProduct (unreachable\<lparr>API_BASE_URL := None\<rparr>) (JStr ''7'') corrupt_storage =
     (Inl (JsError ''Error''
        ''Failed to delete product: No API URL configured - using localStorage''), corrupt_storage) \<and>
   str_includes ''Failed to create product: Failed to fetch'' ''Failed to create product''"
proof -
  have r: "apiRequest unreachable ''/products''
      \<lparr>opt_method = Some ''POST'', opt_body = Some test_product\<rparr> corrupt_storage =
     (Inl (JsError ''TypeError'' ''Failed to fetch''), corrupt_storage)"
    by (simp add: apiRequest_def unreachable_def corrupt_storage_def truthy_string_def)
  have d: "apiRequest (unreachable\<lparr>API_BASE_URL := None\<rparr>)
      (''/products/'' @ js_String (unreachable\<lparr>API_BASE_URL := None\<rparr>) (JStr ''7''))
      \<lparr>opt_method = Some ''DELETE'', opt_body = None\<rparr> corrupt_storage =
     (Inl (JsError ''Error'' ''No API URL configured - using localStorage''), corrupt_storage)"
    by (simp add: apiRequest_def truthy_string_def)
  note m = mutations_wrap_remote_failure
  from m [of unreachable test_product corrupt_storage, THEN conjunct1, rule_format, OF r]
  have a: "createProduct unreachable test_product corrupt_storage =
     (Inl (JsError ''Error'' ''Failed to create product: Failed to fetch''), corrupt_storage)"
    by simp
  from m [of "unreachable\<lparr>API_BASE_URL := None\<rparr>" _ corrupt_storage "JStr ''7''",
      THEN conjunct2, THEN conjunct2, THEN conjunct1, rule_format, OF d]
  have b: "deleteProduct (unreachable\<lparr>API_BASE_URL := None\<rparr>) (JStr ''7'') corrupt_storage =
     (Inl (JsError ''Error''
        ''Failed to delete product: No API URL configured - using localStorage''), corrupt_storage)"
    by simp
  have c: "str_includes ''Failed to create product: Failed to fetch'' ''Failed to create product''"
    by simp
  from r d a b c show ?thesis by (simp add: js_String_def)
qed

section \<open>What the client makes of the handler's answer\<close>

text \<open>
  \<^bold>\<open>C5\<close>, on the answer of the handler in this repository. \<^verbatim>\<open>handleGet\<close> answers a
  request for all products with \<^verbatim>\<open>{success: true, data: [...], count, source}\<close>. The
  normalization of lines 81-94 looks for \<^verbatim>\<open>data.products\<close> and \<^verbatim>\<open>data.product\<close>; the
  answer has neither and is no array, so it is returned whole, and not its \<^verbatim>\<open>data\<close>.
\<close>

theorem normalize_returns_handler_envelope:
  "res_body (fst (handler (answering [aviator]) get_all idle)) =
     JObj [(''success'', JBool True), (''data'', JArr [JObj aviator]),
           (''count'', JNum 1), (''source'', JStr ''neon'')] \<and>
   normalize (res_body (fst (handler (answering [aviator]) get_all idle))) =
     Inr (JObj [(''success'', JBool True), (''data'', JArr [JObj aviator]),
                (''count'', JNum 1), (''source'', JStr ''neon'')]) \<and>
   normalize (res_body (fst (handler (answering [aviator]) get_all idle))) \<noteq>
     Inr (JArr [JObj aviator])"
proof -
  have page: "res_body (fst (handler (answering [aviator]) get_all idle)) =
     JObj [(''success'', JBool True), (''data'', JArr [JObj aviator]),
           (''count'', JNum 1), (''source'', JStr ''neon'')]"
    by (simp add: handler_def dispatch_def handleGet_def read_products_def given_param_def param_def
        exec_def listing_def send_def setHeader_def corsHeaders_def fresh_response_def
        truthy_string_def answering_def idle_def get_all_def alter_statements_def)
  show ?thesis
    unfolding page
    by (simp add: normalize_def js_get_def unwrap_def property_def truthy_def isArray_def)
qed

section \<open>The handler: dispatch and the statements it runs\<close>

lemma cors_response_eq:
  "fold setHeader corsHeaders fresh_response =
     \<lparr>res_status = 200, res_headers = corsHeaders, res_body = JNull\<rparr>"
  by (simp add: corsHeaders_def setHeader_def fresh_response_def)

lemma handler_dispatch:
  "req_method req \<noteq> ''OPTIONS'' \<Longrightarrow>
   handler sql req c =
     (case dispatch sql req \<lparr>res_status = 200, res_headers = corsHeaders, res_body = JNull\<rparr> c of
        (Inr sent, c1) \<Rightarrow> (sent, c1)
      | (Inl error, c1) \<Rightarrow>
          (\<lparr>res_status = 500, res_headers = corsHeaders,
            res_body = JObj [(''success'', JBool False), (''error'', JStr ''Internal server error''),
                            (''message'', JStr (err_message error))]\<rparr>, c1))"
  by (simp add: handler_def cors_response_eq Let_def send_def split: prod.splits sum.splits)

lemma exec_trace: "exec sql st c = (result, c1) \<Longrightarrow> trace c1 = trace c @ [(st, result)]"
  by (auto simp: exec_def split: prod.splits)

text \<open>
  \<^bold>\<open>C1\<close>, on the requests where the handler does not do what the claim says. Only
  \<^verbatim>\<open>handleGet\<close> holds the two \<^verbatim>\<open>CREATE TABLE IF NOT EXISTS\<close> statements. On a fresh
  connection, for every store: the one statement a POST runs is its \<^verbatim>\<open>INSERT\<close>, the one
  statement a PUT runs is its \<^verbatim>\<open>UPDATE\<close>, and a DELETE runs neither of the two
  \<^verbatim>\<open>CREATE TABLE\<close> statements.
\<close>

theorem mutations_run_no_schema_statement:
  fixes sql :: "'db sql"
  shows
  "map fst (trace (snd (handler sql
       \<lparr>req_method = ''POST'', req_query = q, req_body = Some (JObj kvs)\<rparr>
       \<lparr>store = db, trace = []\<rparr>)))
     = [InsertProduct (map (\<lambda>k. (k, post_value (map_of kvs) k)) product_fields)] \<and>
   map fst (trace (snd (handler sql
       \<lparr>req_method = ''PUT'', req_query = q, req_body = Some (JObj kvs)\<rparr>
       \<lparr>store = db, trace = []\<rparr>)))
     = [put_statement (map_of kvs) (map_of q ''id'')] \<and>
   create_products \<notin> set (map fst (trace (snd (handler sql
       \<lparr>req_method = ''DELETE'', req_query = q, req_body = b\<rparr>
       \<lparr>store = db, trace = []\<rparr>)))) \<and>
   create_comments \<notin> set (map fst (trace (snd (handler sql
       \<lparr>req_method = ''DELETE'', req_query = q, req_body = b\<rparr>
       \<lparr>store = db, trace = []\<rparr>))))"
proof (intro conjI)
  show "map fst (trace (snd (handler sql
       \<lparr>req_method = ''POST'', req_query = q, req_body = Some (JObj kvs)\<rparr>
       \<lparr>store = db, trace = []\<rparr>)))
     = [InsertProduct (map (\<lambda>k. (k, post_value (map_of kvs) k)) product_fields)]"
    by (simp add: handler_dispatch dispatch_def handlePost_def destructure_def exec_def
        property_def [abs_def] first_row_def
        split: prod.splits sum.splits list.splits)
  show "map fst (trace (snd (handler sql
       \<lparr>req_method = ''PUT'', req_query = q, req_body = Some (JObj kvs)\<rparr>
       \<lparr>store = db, trace = []\<rparr>)))
     = [put_statement (map_of kvs) (map_of q ''id'')]"
    by (simp add: handler_dispatch dispatch_def handlePut_def destructure_def exec_def
        property_def [abs_def] param_def
        split: prod.splits sum.splits list.splits)
  show "create_products \<notin> set (map fst (trace (snd (handler sql
       \<lparr>req_method = ''DELETE'', req_query = q, req_body = b\<rparr>
       \<lparr>store = db, trace = []\<rparr>))))"
    by (simp add: handler_dispatch dispatch_def handleDelete_def exec_def create_products_def
        first_row_def
        split: prod.splits sum.splits list.splits option.splits)
  show "create_comments \<notin> set (map fst (trace (snd (handler sql
       \<lparr>req_method = ''DELETE'', req_query = q, req_body = b\<rparr>
       \<lparr>store = db, trace = []\<rparr>))))"
    by (simp add: handler_dispatch dispatch_def handleDelete_def exec_def create_comments_def
        first_row_def
        split: prod.splits sum.splits list.splits option.splits)
qed

section \<open>Schema migration: one guard for all add-column statements\<close>

lemma add_columns_prefix:
  "\<exists>new. trace (add_columns sql sts c) = trace c @ new \<and>
         map fst new = take (length new) sts \<and>
         (\<forall>i. Suc i < length new \<longrightarrow> \<not> failed (new ! i)) \<and>
         (length new < length sts \<longrightarrow> new \<noteq> [] \<and> failed (last new))"
proof (induction sts arbitrary: c)
  case Nil
  then show ?case by simp
next
  case (Cons st sts)
  obtain result c1 where e: "exec sql st c = (result, c1)"
    by (cases "exec sql st c")
  note t = exec_trace [OF e]
  show ?case
  proof (cases result)
    case (Inl alterError)
    with e t have "trace (add_columns sql (st # sts) c) = trace c @ [(st, Inl alterError)]"
      by simp
    then show ?thesis
      by (intro exI [of _ "[(st, Inl alterError)]"]) (simp add: failed_def)
  next
    case (Inr rows)
    from Cons.IH [of c1] obtain new where
      n: "trace (add_columns sql sts c1) = trace c1 @ new"
         "map fst new = take (length new) sts"
         "\<forall>i. Suc i < length new \<longrightarrow> \<not> failed (new ! i)"
         "length new < length sts \<longrightarrow> new \<noteq> [] \<and> failed (last new)"
      by blast
    let ?new = "(st, Inr rows) # new"
    have 1: "trace (add_columns sql (st # sts) c) = trace c @ ?new"
      using e Inr t n(1) by simp
    have 2: "map fst ?new = take (length ?new) (st # sts)"
      using n(2) by simp
    have 3: "\<forall>i. Suc i < length ?new \<longrightarrow> \<not> failed (?new ! i)"
    proof (intro allI impI)
      fix i assume "Suc i < length ?new"
      then show "\<not> failed (?new ! i)"
        using n(3) by (cases i) (simp_all add: failed_def)
    qed
    have 4: "length ?new < length (st # sts) \<longrightarrow> ?new \<noteq> [] \<and> failed (last ?new)"
      using n(4) by auto
    from 1 2 3 4 show ?thesis by blast
  qed
qed

lemma exec_succeeds:
  fixes sql :: "'db sql" and c :: "'db conn"
  assumes "\<forall>st db. \<not> is_add_column st \<longrightarrow> \<not> isl (fst (sql st db))"
      and "\<not> is_add_column st"
  shows "\<exists>rows c1. exec sql st c = (Inr rows, c1)"
proof -
  from assms have "\<not> isl (fst (sql st (store c)))" by blast
  then obtain rows db where "sql st (store c) = (Inr rows, db)"
    by (cases "sql st (store c)"; cases "fst (sql st (store c))") auto
  then show ?thesis by (simp add: exec_def)
qed

lemma read_products_succeeds:
  fixes sql :: "'db sql" and c :: "'db conn"
  assumes "\<forall>st db. \<not> is_add_column st \<longrightarrow> \<not> isl (fst (sql st db))"
  shows "\<not> isl (fst (read_products sql req res c))"
proof -
  have ok: "\<And>st (c :: 'db conn). \<not> is_add_column st \<Longrightarrow> \<exists>rows c1. exec sql st c = (Inr rows, c1)"
    using exec_succeeds [OF assms] by blast
  show ?thesis
  proof (cases "given_param req ''id''")
    case (Some ident)
    obtain rows c1 where "exec sql (SelectById (Some (JStr ident))) c = (Inr rows, c1)"
      using ok [of "SelectById (Some (JStr ident))" c] by auto
    with Some show ?thesis by (cases rows) (simp_all add: read_products_def)
  next
    case None
    note no_id = None
    show ?thesis
    proof (cases "given_param req ''search''")
      case (Some search)
      let ?p = "Some (JStr (''%'' @ search @ ''%''))"
      obtain rows c1 where "exec sql (SelectSearch ?p ?p ?p) c = (Inr rows, c1)"
        using ok [of "SelectSearch ?p ?p ?p" c] by auto
      with Some no_id show ?thesis by (simp add: read_products_def Let_def)
    next
      case None
      note no_search = None
      show ?thesis
      proof (cases "given_param req ''category''")
        case (Some category)
        let ?p = "Some (JStr (''%'' @ category @ ''%''))"
        obtain rows c1 where "exec sql (SelectCategory ?p) c = (Inr rows, c1)"
          using ok [of "SelectCategory ?p" c] by auto
        with Some no_id no_search show ?thesis by (simp add: read_products_def)
      next
        case None
        obtain rows c1 where "exec sql SelectAll c = (Inr rows, c1)"
          using ok [of SelectAll c] by auto
        with None no_id no_search show ?thesis by (simp add: read_products_def)
      qed
    qed
  qed
qed

lemma handleGet_succeeds:
  fixes sql :: "'db sql" and c :: "'db conn"
  assumes "\<forall>st db. \<not> is_add_column st \<longrightarrow> \<not> isl (fst (sql st db))"
  shows "\<not> isl (fst (handleGet sql req res c))"
proof -
  obtain created c1 where 1: "exec sql create_products c = (Inr created, c1)"
    using exec_succeeds [OF assms, of create_products c] by (auto simp: create_products_def)
  obtain created' c2 where
    2: "exec sql create_comments (add_columns sql alter_statements c1) = (Inr created', c2)"
    using exec_succeeds [OF assms, of create_comments "add_columns sql alter_statements c1"]
    by (auto simp: create_comments_def)
  show ?thesis
    using 1 2 read_products_succeeds [OF assms, of req res c2]
    by (simp add: handleGet_def)
qed

text \<open>
  \<^bold>\<open>C2\<close>, on a store where the handler does not do what the claim says. The block of
  lines 90-105 is headed \<^verbatim>\<open>Add missing columns if they don't exist\<close> and its \<^verbatim>\<open>catch\<close>
  logs \<^verbatim>\<open>Some columns may already exist\<close>, but one \<^verbatim>\<open>try\<close> holds all eleven statements.
  On a store that throws on the first add-column statement (\<^verbatim>\<open>framecolor\<close>) and answers
  every other statement, a GET runs four statements: the \<^verbatim>\<open>CREATE TABLE\<close> of products,
  the \<^verbatim>\<open>framecolor\<close> statement, the \<^verbatim>\<open>CREATE TABLE\<close> of comments and the \<^verbatim>\<open>SELECT\<close>.
  The ten add-column statements after the failed one, the one for \<^verbatim>\<open>style\<close> among them,
  are not executed. The failure is not propagated: the request is answered with status
  200.
\<close>

theorem add_column_failure_skips_rest:
  "map fst (trace (snd (handler
       (failing_on (AddColumnIfNotExists ''products'' ''framecolor'' ''VARCHAR(100)''))
       get_all idle)))
     = [create_products,
        AddColumnIfNotExists ''products'' ''framecolor'' ''VARCHAR(100)'',
        create_comments,
        SelectAll] \<and>
   AddColumnIfNotExists ''products'' ''style'' ''VARCHAR(100)'' \<in> set alter_statements \<and>
   AddColumnIfNotExists ''products'' ''style'' ''VARCHAR(100)'' \<notin> set (map fst (trace (snd (handler
       (failing_on (AddColumnIfNotExists ''products'' ''framecolor'' ''VARCHAR(100)''))
       get_all idle)))) \<and>
   res_status (fst (handler
       (failing_on (AddColumnIfNotExists ''products'' ''framecolor'' ''VARCHAR(100)''))
       get_all idle)) = 200"
  by (simp add: handler_def dispatch_def handleGet_def read_products_def given_param_def param_def
        exec_def listing_def send_def setHeader_def corsHeaders_def fresh_response_def
        truthy_string_def failing_on_def idle_def get_all_def alter_statements_def
      create_products_def create_comments_def)

text \<open>
  What holds of the add-column phase for every store and every list of statements. What
  the phase adds to the trace is a prefix of the list, every statement of it but the
  last one succeeded, and when the prefix is not the whole list its last statement is
  one that failed: the first failure ends the phase. The phase itself throws nothing,
  and on a store where every statement other than an add-column statement succeeds,
  \<^verbatim>\<open>handleGet\<close> returns a response whatever the add-column statements do.
\<close>

theorem add_columns_share_one_guard:
  fixes sql :: "'db sql" and c :: "'db conn"
  shows "(\<exists>new. trace (add_columns sql sts c) = trace c @ new \<and>
            map fst new = take (length new) sts \<and>
            (\<forall>i. Suc i < length new \<longrightarrow> \<not> failed (new ! i)) \<and>
            (length new < length sts \<longrightarrow> new \<noteq> [] \<and> failed (last new))) \<and>
         ((\<forall>st db. \<not> is_add_column st \<longrightarrow> \<not> isl (fst (sql st db)))
            \<longrightarrow> \<not> isl (fst (handleGet sql req res c)))"
  using add_columns_prefix [of sql sts c] handleGet_succeeds [of sql req res c]
  by blast

theorem add_columns_share_one_guard_witness:
  "map fst (trace (add_columns (failing_on (alter_statements ! 2)) alter_statements idle)) =
     take 3 alter_statements \<and>
   failed (last (trace (add_columns (failing_on (alter_statements ! 2)) alter_statements idle))) \<and>
   \<not> isl (fst (handleGet (failing_on (alter_statements ! 2)) get_all fresh_response idle))"
proof -
  let ?sql = "failing_on (alter_statements ! 2)"
  have h: "\<forall>st db. \<not> is_add_column st \<longrightarrow> \<not> isl (fst (?sql st db))"
    by (auto simp: failing_on_def alter_statements_def)
  note g = add_columns_share_one_guard [of ?sql alter_statements idle get_all fresh_response]
  from g h have 3: "\<not> isl (fst (handleGet ?sql get_all fresh_response idle))"
    by blast
  have t: "map fst (trace (add_columns ?sql alter_statements idle)) = take 3 alter_statements"
    by (simp add: alter_statements_def failing_on_def idle_def exec_def)
  from g obtain new where
    n: "trace (add_columns ?sql alter_statements idle) = trace idle @ new"
       "length new < length alter_statements \<longrightarrow> new \<noteq> [] \<and> failed (last new)"
    by blast
  from n(1) have new: "new = trace (add_columns ?sql alter_statements idle)"
    by (simp add: idle_def)
  from t have "length (map fst (trace (add_columns ?sql alter_statements idle))) = 3"
    by (simp add: alter_statements_def)
  then have "length new < length alter_statements"
    using new by (simp add: alter_statements_def)
  with n(2) new
  have "failed (last (trace (add_columns ?sql alter_statements idle)))" by simp
  with t 3 show ?thesis by simp
qed

section \<open>GET ensures the schema first\<close>

lemma read_products_trace:
  "\<exists>st result. is_read st \<and>
     trace (snd (read_products sql req res c)) = trace c @ [(st, result)]"
proof (cases "given_param req ''id''")
  case (Some ident)
  obtain result c1 where e: "exec sql (SelectById (Some (JStr ident))) c = (result, c1)"
    by (cases "exec sql (SelectById (Some (JStr ident))) c")
  have "trace (snd (read_products sql req res c)) = trace c1"
    using Some e by (simp add: read_products_def split: sum.splits list.splits)
  with exec_trace [OF e] show ?thesis by (intro exI [of _ "SelectById (Some (JStr ident))"]) simp
next
  case None
  note no_id = None
  show ?thesis
  proof (cases "given_param req ''search''")
    case (Some search)
    let ?p = "Some (JStr (''%'' @ search @ ''%''))"
    obtain result c1 where e: "exec sql (SelectSearch ?p ?p ?p) c = (result, c1)"
      by (cases "exec sql (SelectSearch ?p ?p ?p) c")
    have "trace (snd (read_products sql req res c)) = trace c1"
      using Some no_id e by (simp add: read_products_def Let_def split: sum.splits)
    with exec_trace [OF e] show ?thesis by (intro exI [of _ "SelectSearch ?p ?p ?p"]) simp
  next
    case None
    note no_search = None
    show ?thesis
    proof (cases "given_param req ''category''")
      case (Some category)
      let ?p = "Some (JStr (''%'' @ category @ ''%''))"
      obtain result c1 where e: "exec sql (SelectCategory ?p) c = (result, c1)"
        by (cases "exec sql (SelectCategory ?p) c")
      have "trace (snd (read_products sql req res c)) = trace c1"
        using Some no_id no_search e by (simp add: read_products_def split: sum.splits)
      with exec_trace [OF e] show ?thesis by (intro exI [of _ "SelectCategory ?p"]) simp
    next
      case None
      obtain result c1 where e: "exec sql SelectAll c = (result, c1)"
        by (cases "exec sql SelectAll c")
      have "trace (snd (read_products sql req res c)) = trace c1"
        using None no_id no_search e by (simp add: read_products_def split: sum.splits)
      with exec_trace [OF e] show ?thesis by (intro exI [of _ SelectAll]) simp
    qed
  qed
qed

lemma handleGet_trace:
  fixes sql :: "'db sql" and c :: "'db conn"
  shows "\<exists>rest. map fst (trace (snd (handleGet sql req res c))) =
            map fst (trace c) @ create_products # rest \<and>
          (rest = [] \<or>
           (\<exists>n tail. rest = take n alter_statements @ create_comments # tail \<and>
              (tail = [] \<or> (\<exists>st. is_read st \<and> tail = [st]))))"
proof -
  obtain r1 c1 where e1: "exec sql create_products c = (r1, c1)"
    by (cases "exec sql create_products c")
  note t1 = exec_trace [OF e1]
  show ?thesis
  proof (cases r1)
    case (Inl error)
    with e1 t1 have "map fst (trace (snd (handleGet sql req res c))) =
        map fst (trace c) @ create_products # []"
      by (simp add: handleGet_def)
    then show ?thesis by blast
  next
    case (Inr created)
    obtain new where n: "trace (add_columns sql alter_statements c1) = trace c1 @ new"
        "map fst new = take (length new) alter_statements"
      using add_columns_prefix [of sql alter_statements c1] by blast
    obtain r2 c2 where e2: "exec sql create_comments (add_columns sql alter_statements c1) = (r2, c2)"
      by (cases "exec sql create_comments (add_columns sql alter_statements c1)")
    note t2 = exec_trace [OF e2]
    show ?thesis
    proof (cases r2)
      case (Inl error)
      with e1 e2 \<open>r1 = Inr created\<close> have "snd (handleGet sql req res c) = c2"
        by (simp add: handleGet_def)
      with t1 t2 n have "map fst (trace (snd (handleGet sql req res c))) =
          map fst (trace c) @ create_products #
            (take (length new) alter_statements @ create_comments # [])"
        by simp
      then show ?thesis by blast
    next
      case (Inr created')
      with e1 e2 \<open>r1 = Inr created\<close>
      have h: "snd (handleGet sql req res c) = snd (read_products sql req res c2)"
        by (simp add: handleGet_def)
      obtain st result where s: "is_read st"
          "trace (snd (read_products sql req res c2)) = trace c2 @ [(st, result)]"
        using read_products_trace [of sql req res c2] by blast
      from h s(2) t1 t2 n have "map fst (trace (snd (handleGet sql req res c))) =
          map fst (trace c) @ create_products #
            (take (length new) alter_statements @ create_comments # [st])"
        by simp
      with s(1) show ?thesis by blast
    qed
  qed
qed

text \<open>
  What a GET does for the schema, for every store. The first statement it runs is the
  \<^verbatim>\<open>CREATE TABLE IF NOT EXISTS\<close> of products. When that one succeeds, a prefix of the
  add-column statements follows, then the \<^verbatim>\<open>CREATE TABLE IF NOT EXISTS\<close> of comments,
  and only then, when that one succeeds too, the one \<^verbatim>\<open>SELECT\<close> of the request.
\<close>

theorem get_ensures_schema_first:
  fixes sql :: "'db sql" and c :: "'db conn"
  assumes "req_method req = ''GET''"
  shows "\<exists>rest. map fst (trace (snd (handler sql req c))) =
            map fst (trace c) @ create_products # rest \<and>
          (rest = [] \<or>
           (\<exists>n tail. rest = take n alter_statements @ create_comments # tail \<and>
              (tail = [] \<or> (\<exists>st. is_read st \<and> tail = [st]))))"
proof -
  have "snd (handler sql req c) =
      snd (handleGet sql req \<lparr>res_status = 200, res_headers = corsHeaders, res_body = JNull\<rparr> c)"
    using assms by (simp add: handler_dispatch dispatch_def split: prod.splits sum.splits)
  then show ?thesis
    using handleGet_trace [of sql req _ c] by simp
qed

theorem get_ensures_schema_first_witness:
  "req_method get_all = ''GET'' \<and>
   map fst (trace (snd (handler (answering []) get_all idle))) =
     create_products # alter_statements @ [create_comments, SelectAll]"
proof -
  have m: "req_method get_all = ''GET''" by (simp add: get_all_def)
  from get_ensures_schema_first [OF m, of "answering []" idle]
  obtain rest where "map fst (trace (snd (handler (answering []) get_all idle))) =
            map fst (trace idle) @ create_products # rest"
    by blast
  moreover have "map fst (trace (snd (handler (answering []) get_all idle))) =
     create_products # alter_statements @ [create_comments, SelectAll]"
    by (simp add: handler_def dispatch_def handleGet_def read_products_def given_param_def param_def
        exec_def listing_def send_def setHeader_def corsHeaders_def fresh_response_def
        truthy_string_def answering_def idle_def get_all_def alter_statements_def)
  ultimately show ?thesis using m by simp
qed

section \<open>PUT replaces the whole row\<close>

lemma fields_are_columns:
  "set product_fields =
     set (map fst products_columns) - {''id'', ''created_at'', ''updated_at''}"
  by (auto simp: product_fields_def products_columns_def)

lemma put_statement_explicit:
  "put_statement given (param req ''id'') =
     UpdateProduct (map (\<lambda>k. (k, Bind (given k))) product_fields @ [(''updated_at'', Now)])
       (map_option JStr (map_of (req_query req) ''id''))"
  by (simp add: put_statement_def product_fields_def bound_def param_def)

lemma handler_put:
  "req_method req = ''PUT'' \<Longrightarrow>
   handler sql req c =
     (case handlePut sql req \<lparr>res_status = 200, res_headers = corsHeaders, res_body = JNull\<rparr> c of
        (Inr sent, c1) \<Rightarrow> (sent, c1)
      | (Inl error, c1) \<Rightarrow>
          (\<lparr>res_status = 500, res_headers = corsHeaders,
            res_body = JObj [(''success'', JBool False), (''error'', JStr ''Internal server error''),
                            (''message'', JStr (err_message error))]\<rparr>, c1))"
  by (simp add: handler_dispatch dispatch_def)

text \<open>
  \<^bold>\<open>C7\<close>, refuted as stated. The handler destructures \<^verbatim>\<open>req.body\<close> before it sends
  anything, and destructuring throws on a body that is not there or is \<^verbatim>\<open>null\<close>. For
  such a PUT of the id 8, of which the table has no row, the answer is status 500 and
  not 404; for such a PUT of the id 7, of which it has a row, the answer is status 500
  as well, and nothing is written: no statement reaches the store.
\<close>

theorem put_without_body_answers_500:
  "res_status (fst (handler row_7 (put_8\<lparr>req_body := None\<rparr>) idle)) = 500 \<and>
   res_status (fst (handler row_7 (put_8\<lparr>req_body := Some JNull\<rparr>) idle)) = 500 \<and>
   res_status (fst (handler row_7 (put_7\<lparr>req_body := None\<rparr>) idle)) = 500 \<and>
   trace (snd (handler row_7 (put_7\<lparr>req_body := None\<rparr>) idle)) = [] \<and>
   res_status (fst (handler row_7 put_8 idle)) = 404"
  by (simp add: handler_def dispatch_def handlePut_def destructure_def put_statement_def
      bound_def param_def exec_def send_def setHeader_def corsHeaders_def fresh_response_def
      row_7_def idle_def put_7_def put_8_def test_product_def)

text \<open>
  \<^bold>\<open>C7\<close>, as amended: for every store, every query and every body.
  \<^item> A PUT with no body or with the body \<^verbatim>\<open>null\<close> is answered with status 500, and the
    connection is what it was: no statement was handed to the store.
  \<^item> For every other body the handler runs exactly one statement, the \<^verbatim>\<open>UPDATE\<close> whose
    \<^verbatim>\<open>WHERE id =\<close> parameter is the query's \<^verbatim>\<open>id\<close> (undefined when the query has none).
    Its \<^verbatim>\<open>SET\<close> list is the 26 product fields in the order of the source, each bound to
    the body's property of that name, undefined (written as \<^verbatim>\<open>NULL\<close>) when the body has
    none, never to the row's previous value, and then \<^verbatim>\<open>updated_at = NOW()\<close>. When the
    statement returns a row, the answer is status 200 with that row as \<^verbatim>\<open>data\<close>; when
    it returns none (no row has that \<^verbatim>\<open>id\<close>), the answer is status 404 with
    \<^verbatim>\<open>success: false\<close>; when it throws, the answer is status 500.
  \<^item> The property of an object body is the value the body gives under that name, and
    the 26 fields are the columns of the products table but \<^verbatim>\<open>id\<close>, \<^verbatim>\<open>created_at\<close> and
    \<^verbatim>\<open>updated_at\<close>.
\<close>

theorem handler_put_full_row_replace:
  fixes sql :: "'db sql" and c :: "'db conn"
  assumes "req_method req = ''PUT''"
  shows
   "(req_body req = None \<or> req_body req = Some JNull \<longrightarrow>
       res_status (fst (handler sql req c)) = 500 \<and> snd (handler sql req c) = c) \<and>
    (\<forall>b result db1.
       req_body req = Some b \<and> b \<noteq> JNull \<and>
       sql (UpdateProduct
              (map (\<lambda>k. (k, Bind (property b k))) product_fields @ [(''updated_at'', Now)])
              (map_option JStr (map_of (req_query req) ''id''))) (store c) = (result, db1) \<longrightarrow>
       snd (handler sql req c) =
         \<lparr>store = db1,
          trace = trace c @
            [(UpdateProduct
                (map (\<lambda>k. (k, Bind (property b k))) product_fields @ [(''updated_at'', Now)])
                (map_option JStr (map_of (req_query req) ''id'')), result)]\<rparr> \<and>
       (\<forall>r rs. result = Inr (r # rs) \<longrightarrow>
          fst (handler sql req c) =
            \<lparr>res_status = 200, res_headers = corsHeaders,
              res_body = JObj [(''success'', JBool True), (''data'', JObj r),
                              (''message'', JStr ''Product updated successfully'')]\<rparr>) \<and>
       (result = Inr [] \<longrightarrow>
          fst (handler sql req c) =
            \<lparr>res_status = 404, res_headers = corsHeaders,
              res_body = JObj [(''success'', JBool False),
                              (''error'', JStr ''Product not found'')]\<rparr>) \<and>
       (\<forall>e. result = Inl e \<longrightarrow> res_status (fst (handler sql req c)) = 500)) \<and>
    (\<forall>kvs k. property (JObj kvs) k = map_of kvs k) \<and>
    set product_fields =
      set (map fst products_columns) - {''id'', ''created_at'', ''updated_at''}"
proof (intro conjI allI impI)
  assume "req_body req = None \<or> req_body req = Some JNull"
  then have "handlePut sql req \<lparr>res_status = 200, res_headers = corsHeaders, res_body = JNull\<rparr> c =
      (Inl (cannot_destructure (if req_body req = None then ''undefined'' else ''null'')), c)"
    by (auto simp: handlePut_def destructure_def)
  then show "res_status (fst (handler sql req c)) = 500" and "snd (handler sql req c) = c"
    by (simp_all add: handler_put [OF assms])
next
  fix b result db1
  let ?st = "UpdateProduct
              (map (\<lambda>k. (k, Bind (property b k))) product_fields @ [(''updated_at'', Now)])
              (map_option JStr (map_of (req_query req) ''id''))"
  assume h: "req_body req = Some b \<and> b \<noteq> JNull \<and> sql ?st (store c) = (result, db1)"
  then have e: "exec sql (put_statement (property b) (param req ''id'')) c =
      (result, \<lparr>store = db1, trace = trace c @ [(?st, result)]\<rparr>)"
    by (simp add: put_statement_explicit exec_def)
  from h have g: "destructure (req_body req) = Inr (property b)"
    by (simp add: destructure_def)
  show "snd (handler sql req c) = \<lparr>store = db1, trace = trace c @ [(?st, result)]\<rparr>"
    using e g by (simp add: handler_put [OF assms] handlePut_def split: sum.splits list.splits)
  show "fst (handler sql req c) =
            \<lparr>res_status = 200, res_headers = corsHeaders,
              res_body = JObj [(''success'', JBool True), (''data'', JObj r),
                              (''message'', JStr ''Product updated successfully'')]\<rparr>"
    if "result = Inr (r # rs)" for r rs
    using e g that by (simp add: handler_put [OF assms] handlePut_def send_def)
  show "fst (handler sql req c) =
            \<lparr>res_status = 404, res_headers = corsHeaders,
              res_body = JObj [(''success'', JBool False),
                              (''error'', JStr ''Product not found'')]\<rparr>"
    if "result = Inr []"
    using e g that by (simp add: handler_put [OF assms] handlePut_def send_def)
  show "res_status (fst (handler sql req c)) = 500" if "result = Inl e" for e
    using e g that by (simp add: handler_put [OF assms] handlePut_def)
next
  fix kvs k
  show "property (JObj kvs) k = map_of kvs k" by (simp add: property_def)
next
  show "set product_fields =
      set (map fst products_columns) - {''id'', ''created_at'', ''updated_at''}"
    by (rule fields_are_columns)
qed

theorem handler_put_full_row_replace_witness:
  "req_method put_7 = ''PUT'' \<and> req_body put_7 = Some test_product \<and> test_product \<noteq> JNull \<and>
   handler row_7 put_7 idle =
     (\<lparr>res_status = 200, res_headers = corsHeaders,
       res_body = JObj
         [(''success'', JBool True),
          (''data'', JObj
             [(''id'', JNum 7), (''name'', JStr ''Test''), (''price'', JNum 10),
              (''original_price'', JNull), (''category'', JNull), (''brand'', JNull),
              (''material'', JNull), (''shape'', JNull), (''color'', JNull), (''size'', JNull),
              (''image'', JNull), (''gallery'', JNull), (''description'', JNull),
              (''features'', JNull), (''specifications'', JNull), (''status'', JNull),
              (''framecolor'', JNull), (''style'', JNull), (''rim'', JNull), (''gender'', JNull),
              (''type'', JNull), (''featured'', JNull), (''bestseller'', JNull),
              (''sizes'', JNull), (''lenstypes'', JNull), (''discount'', JNull),
              (''colorimages'', JNull), (''updated_at'', JStr ''2024-01-01T00:00:00.000Z'')]),
          (''message'', JStr ''Product updated successfully'')]\<rparr>,
      \<lparr>store = (),
       trace =
         [(UpdateProduct
             (map (\<lambda>k. (k, Bind (property test_product k))) product_fields @ [(''updated_at'', Now)])
             (Some (JStr ''7'')),
           Inr [[(''id'', JNum 7), (''name'', JStr ''Test''), (''price'', JNum 10),
              (''original_price'', JNull), (''category'', JNull), (''brand'', JNull),
              (''material'', JNull), (''shape'', JNull), (''color'', JNull), (''size'', JNull),
              (''image'', JNull), (''gallery'', JNull), (''description'', JNull),
              (''features'', JNull), (''specifications'', JNull), (''status'', JNull),
              (''framecolor'', JNull), (''style'', JNull), (''rim'', JNull), (''gender'', JNull),
              (''type'', JNull), (''featured'', JNull), (''bestseller'', JNull),
              (''sizes'', JNull), (''lenstypes'', JNull), (''discount'', JNull),
              (''colorimages'', JNull), (''updated_at'', JStr ''2024-01-01T00:00:00.000Z'')]])]\<rparr>) \<and>
   req_method put_8 = ''PUT'' \<and> req_body put_8 = Some test_product \<and>
   fst (handler row_7 put_8 idle) =
     \<lparr>res_status = 404, res_headers = corsHeaders,
       res_body = JObj [(''success'', JBool False), (''error'', JStr ''Product not found'')]\<rparr> \<and>
   req_body (put_7\<lparr>req_body := None\<rparr>) = None \<and>
   res_status (fst (handler row_7 (put_7\<lparr>req_body := None\<rparr>) idle)) = 500 \<and>
   snd (handler row_7 (put_7\<lparr>req_body := None\<rparr>) idle) = idle"
proof -
  let ?row = "[(''id'', JNum 7), (''name'', JStr ''Test''), (''price'', JNum 10),
              (''original_price'', JNull), (''category'', JNull), (''brand'', JNull),
              (''material'', JNull), (''shape'', JNull), (''color'', JNull), (''size'', JNull),
              (''image'', JNull), (''gallery'', JNull), (''description'', JNull),
              (''features'', JNull), (''specifications'', JNull), (''status'', JNull),
              (''framecolor'', JNull), (''style'', JNull), (''rim'', JNull), (''gender'', JNull),
              (''type'', JNull), (''featured'', JNull), (''bestseller'', JNull),
              (''sizes'', JNull), (''lenstypes'', JNull), (''discount'', JNull),
              (''colorimages'', JNull), (''updated_at'', JStr ''2024-01-01T00:00:00.000Z'')]"
  let ?st = "\<lambda>req. UpdateProduct
      (map (\<lambda>k. (k, Bind (property test_product k))) product_fields @ [(''updated_at'', Now)])
      (map_option JStr (map_of (req_query req) ''id''))"
  have m7: "req_method put_7 = ''PUT''" and b7: "req_body put_7 = Some test_product"
    and m8: "req_method put_8 = ''PUT''" and b8: "req_body put_8 = Some test_product"
    and m0: "req_method (put_7\<lparr>req_body := None\<rparr>) = ''PUT''"
    and b0: "req_body (put_7\<lparr>req_body := None\<rparr>) = None"
    and nn: "test_product \<noteq> JNull"
    by (simp_all add: put_7_def put_8_def test_product_def)
  have i7: "map_option JStr (map_of (req_query put_7) ''id'') = Some (JStr ''7'')"
    by (simp add: put_7_def)
  have s7: "row_7 (?st put_7) (store idle) = (Inr [?row], ())"
    by (simp add: row_7_def put_7_def product_fields_def test_product_def property_def
        written_def)
  have s8: "row_7 (?st put_8) (store idle) = (Inr [], ())"
    by (simp add: row_7_def put_8_def)
  note t7 = handler_put_full_row_replace [OF m7, of row_7 idle, THEN conjunct2, THEN conjunct1,
      rule_format, of test_product "Inr [?row]" "()"]
  from t7 b7 nn s7 have c7: "snd (handler row_7 put_7 idle) =
      \<lparr>store = (), trace = trace idle @ [(?st put_7, Inr [?row])]\<rparr>"
    and a7: "fst (handler row_7 put_7 idle) =
            \<lparr>res_status = 200, res_headers = corsHeaders,
              res_body = JObj [(''success'', JBool True), (''data'', JObj ?row),
                              (''message'', JStr ''Product updated successfully'')]\<rparr>"
    by blast+
  note t8 = handler_put_full_row_replace [OF m8, of row_7 idle, THEN conjunct2, THEN conjunct1,
      rule_format, of test_product "Inr []" "()"]
  from t8 b8 nn s8 have a8: "fst (handler row_7 put_8 idle) =
     \<lparr>res_status = 404, res_headers = corsHeaders,
       res_body = JObj [(''success'', JBool False), (''error'', JStr ''Product not found'')]\<rparr>"
    by blast
  note t0 = handler_put_full_row_replace [OF m0, of row_7 idle, THEN conjunct1, rule_format]
  from t0 b0 have a0: "res_status (fst (handler row_7 (put_7\<lparr>req_body := None\<rparr>) idle)) = 500"
    and c0: "snd (handler row_7 (put_7\<lparr>req_body := None\<rparr>) idle) = idle"
    by blast+
  have "handler row_7 put_7 idle =
      (fst (handler row_7 put_7 idle), snd (handler row_7 put_7 idle))" by simp
  also have "\<dots> = (\<lparr>res_status = 200, res_headers = corsHeaders,
              res_body = JObj [(''success'', JBool True), (''data'', JObj ?row),
                              (''message'', JStr ''Product updated successfully'')]\<rparr>,
      \<lparr>store = (), trace = [(UpdateProduct
             (map (\<lambda>k. (k, Bind (property test_product k))) product_fields @ [(''updated_at'', Now)])
             (Some (JStr ''7'')), Inr [?row])]\<rparr>)"
    unfolding a7 c7 i7 by (simp add: idle_def)
  finally have h7: "handler row_7 put_7 idle = (\<lparr>res_status = 200, res_headers = corsHeaders,
              res_body = JObj [(''success'', JBool True), (''data'', JObj ?row),
                              (''message'', JStr ''Product updated successfully'')]\<rparr>,
      \<lparr>store = (), trace = [(UpdateProduct
             (map (\<lambda>k. (k, Bind (property test_product k))) product_fields @ [(''updated_at'', Now)])
             (Some (JStr ''7'')), Inr [?row])]\<rparr>)" .
  show ?thesis
    by (intro conjI) (rule m7 b7 nn h7 m8 b8 a8 b0 a0 c0)+
qed

section \<open>DELETE\<close>



end
